theory Spec2Isabelle
  imports Main "HOL-Library.Sublist"
begin

section \<open>Python strings\<close>

text \<open>
  Python \<open>str\<close> values are modelled as \<open>string\<close> (a list of 8-bit characters). URLs,
  file extensions and media types are ASCII in practice; \<open>str.lower\<close> is modelled on the
  ASCII letters and \<open>str.strip()\<close> on the ASCII white space characters. A character
  beyond ASCII is the sequence of its UTF-8 bytes.
\<close>

definition startswith :: "string \<Rightarrow> string \<Rightarrow> bool" where
  "startswith s p = prefix p s"

definition endswith :: "string \<Rightarrow> string \<Rightarrow> bool" where
  "endswith s p = suffix p s"

definition ascii_uppercase :: string where
  "ascii_uppercase = ''ABCDEFGHIJKLMNOPQRSTUVWXYZ''"

definition ascii_lowercase :: string where
  "ascii_lowercase = ''abcdefghijklmnopqrstuvwxyz''"

definition lower_char :: "char \<Rightarrow> char" where
  "lower_char c = (case map_of (zip ascii_uppercase ascii_lowercase) c of
                     None \<Rightarrow> c | Some d \<Rightarrow> d)"

definition lower :: "string \<Rightarrow> string" where
  "lower s = map lower_char s"

text \<open>\<open>s.split(sep)[0]\<close> for a one-character separator: everything before its first
  occurrence (the whole string when it does not occur).\<close>

definition split_first :: "char \<Rightarrow> string \<Rightarrow> string" where
  "split_first sep s = takeWhile (\<lambda>c. c \<noteq> sep) s"

text \<open>\<open>s.split(sep)[-1]\<close>: everything after the last occurrence of the separator.\<close>

definition split_last :: "char \<Rightarrow> string \<Rightarrow> string" where
  "split_last sep s = rev (takeWhile (\<lambda>c. c \<noteq> sep) (rev s))"

text \<open>\<open>s.strip(chars)\<close>: leading and trailing characters of the given set removed.\<close>

definition strip_chars :: "string \<Rightarrow> string \<Rightarrow> string" where
  "strip_chars chars s =
     rev (dropWhile (\<lambda>c. c \<in> set chars) (rev (dropWhile (\<lambda>c. c \<in> set chars) s)))"

definition whitespace :: string where
  "whitespace = [CHR '' '', CHR 0x09, CHR 0x0A, CHR 0x0B, CHR 0x0C, CHR 0x0D,
                 CHR 0x1C, CHR 0x1D, CHR 0x1E, CHR 0x1F]"

definition strip :: "string \<Rightarrow> string" where
  "strip s = strip_chars whitespace s"

text \<open>
  \<open>s.encode("latin-1")\<close> succeeds when every character of \<open>s\<close> is at most U+00FF, and
  raises \<open>UnicodeEncodeError\<close> otherwise. In UTF-8 the characters from U+0100 on are
  those whose first byte is \<open>0xC4\<close> or more.
\<close>

definition latin1_encodable :: "string \<Rightarrow> bool" where
  "latin1_encodable s = list_all (\<lambda>c. (of_char c :: nat) < 0xC4) s"

text \<open>\<open>sep.join(xs)\<close>.\<close>

fun join :: "string \<Rightarrow> string list \<Rightarrow> string" where
  "join sep [] = []"
| "join sep [x] = x"
| "join sep (x # y # ys) = x @ sep @ join sep (y # ys)"

section \<open>Link classifier (\<open>app/search.py\<close>)\<close>

definition ALLOWED_SCHEMES :: "string list" where
  "ALLOWED_SCHEMES = [''http://'', ''https://'']"

text \<open>\<open>url.startswith(ALLOWED_SCHEMES)\<close> with a tuple argument: some element is a prefix.\<close>

definition startswith_any :: "string \<Rightarrow> string list \<Rightarrow> bool" where
  "startswith_any s ps = list_ex (startswith s) ps"

text \<open>The \<open>for ext in preferred_extensions\<close> loop with its early \<open>return True\<close>.\<close>

fun ext_loop :: "string \<Rightarrow> string list \<Rightarrow> bool" where
  "ext_loop lowered [] = False"
| "ext_loop lowered (ext # exts) =
     (if endswith lowered (''.'' @ strip_chars ''.'' ext) then True
      else ext_loop lowered exts)"

definition is_direct_file_url :: "string \<Rightarrow> string list \<Rightarrow> bool" where
  "is_direct_file_url url preferred_extensions =
     (if url = [] \<or> \<not> startswith_any url ALLOWED_SCHEMES then False
      else ext_loop (lower (split_first CHR ''?'' url)) preferred_extensions)"

text \<open>
  The classifier as the specification words it: the URL has scheme http or https and,
  with the query string stripped, ends case-insensitively with a dot followed by an
  allowed extension.
\<close>

definition spec_is_direct_file :: "string \<Rightarrow> string list \<Rightarrow> bool" where
  "spec_is_direct_file u A =
     ((startswith u ''http://'' \<or> startswith u ''https://'') \<and>
      list_ex (\<lambda>e. endswith (lower (split_first CHR ''?'' u)) (lower (''.'' @ e))) A)"

text \<open>A normalised extension as the specification describes it: lowercase, no leading dot.\<close>

definition spec_normalized_ext :: "string \<Rightarrow> bool" where
  "spec_normalized_ext e = (lower e = e \<and> \<not> startswith e ''.'')"

text \<open>A dot-stripped lowercase extension: additionally no trailing dot.\<close>

definition dot_stripped_ext :: "string \<Rightarrow> bool" where
  "dot_stripped_ext e = (lower e = e \<and> \<not> startswith e ''.'' \<and> \<not> endswith e ''.'')"

section \<open>Errors and the outside world of \<open>app/search.py\<close>\<close>

text \<open>
  A raised Python exception is a value of type \<open>error\<close>: FastAPI's \<open>HTTPException\<close>
  with its status code and detail, or any other instance of \<open>Exception\<close> (network
  error, timeout, parse failure, ...), tagged with a description.
\<close>

datatype detail = Invalid_URL_scheme | Upstream_status int

datatype error = HTTPException int detail | Error string

text \<open>
  The network and the libraries are taken as parameters. Each network call may raise
  and may answer differently each time it is made, so it takes and returns a world
  state \<open>'w\<close>:
  \<^item> \<open>ddgs_text\<close>: \<open>DDGS().text(query, max_results=..)\<close>, the result dictionaries with
    their keys \<open>title\<close>, \<open>href\<close>, \<open>body\<close> (each possibly absent);
  \<^item> \<open>requests_head\<close>: \<open>requests.head(url, ..)\<close>, reduced to what the code reads of the
    response, \<open>response.headers.get("Content-Type")\<close>;
  \<^item> \<open>requests_get\<close>: \<open>requests.get(url, ..)\<close>, a response with status code and text;
  \<^item> \<open>find_all_href\<close>: the \<open>href\<close> values of
    \<open>BeautifulSoup(text, "html.parser").find_all("a", href=True)\<close>;
  \<^item> \<open>urljoin\<close>: \<open>urllib.parse.urljoin(base, href)\<close>.
\<close>

record ddg_result =
  r_title :: "string option"
  r_href :: "string option"
  r_body :: "string option"

record response =
  status_code :: int
  resp_text :: string

record 'w web =
  ddgs_text :: "string \<Rightarrow> int \<Rightarrow> 'w \<Rightarrow> (error + ddg_result list) \<times> 'w"
  requests_head :: "string \<Rightarrow> 'w \<Rightarrow> (error + string option) \<times> 'w"
  requests_get :: "string \<Rightarrow> 'w \<Rightarrow> (error + response) \<times> 'w"
  find_all_href :: "string \<Rightarrow> error + string list"
  urljoin :: "string \<Rightarrow> string \<Rightarrow> error + string"

text \<open>
  \<open>response.ok\<close> of the requests library: true unless \<open>raise_for_status()\<close> raises,
  which it does for the client errors \<open>400 \<le> status_code < 500\<close> and the server errors
  \<open>500 \<le> status_code < 600\<close>.
\<close>

definition response_ok :: "response \<Rightarrow> bool" where
  "response_ok r = (\<not> (400 \<le> status_code r \<and> status_code r < 600))"

section \<open>Data model\<close>

record search_hit =
  hit_title :: string
  href :: string
  snippet :: string

datatype reason = Matched_by_extension | Found_on_page

record candidate =
  title :: string
  source_page :: string
  direct_url :: string
  reason :: reason
  content_type :: string

text \<open>\<open>d.get(key, "")\<close> on a dictionary whose key may be absent.\<close>

definition get_or :: "string option \<Rightarrow> string \<Rightarrow> string" where
  "get_or v d = (case v of None \<Rightarrow> d | Some s \<Rightarrow> s)"

text \<open>\<open>x or d\<close> for an optional string \<open>x\<close>: \<open>None\<close> and the empty string are falsy.\<close>

definition py_or :: "string option \<Rightarrow> string \<Rightarrow> string" where
  "py_or x d = (case x of None \<Rightarrow> d | Some s \<Rightarrow> if s = [] then d else s)"

section \<open>Content-type prober, page link extractor, search adapter\<close>

text \<open>The body of the \<open>try\<close> block of \<open>_head_content_type\<close>.\<close>

definition head_content_type_try ::
  "'w web \<Rightarrow> string \<Rightarrow> 'w \<Rightarrow> (error + string option) \<times> 'w" where
  "head_content_type_try W url w =
     (case requests_head W url w of
        (Inl e, w') \<Rightarrow> (Inl e, w')
      | (Inr None, w') \<Rightarrow> (Inr None, w')
      | (Inr (Some ctype), w') \<Rightarrow>
          (if ctype \<noteq> [] then (Inr (Some (lower (strip (split_first CHR '';'' ctype)))), w')
           else (Inr None, w')))"

text \<open>\<open>_head_content_type\<close>: \<open>except Exception: return None\<close> around that body.\<close>

definition head_content_type ::
  "'w web \<Rightarrow> string \<Rightarrow> 'w \<Rightarrow> (error + string option) \<times> 'w" where
  "head_content_type W url w =
     (case head_content_type_try W url w of
        (Inl e, w') \<Rightarrow> (Inr None, w')
      | (Inr v, w') \<Rightarrow> (Inr v, w'))"

text \<open>The \<open>for href in links\<close> loop of \<open>_extract_links_from_page\<close>; a raising \<open>urljoin\<close>
  is passed over (\<open>except Exception: pass\<close>).\<close>

fun normalize_links :: "'w web \<Rightarrow> string \<Rightarrow> string list \<Rightarrow> string list \<Rightarrow> string list" where
  "normalize_links W url [] absolute_links = absolute_links"
| "normalize_links W url (h # links) absolute_links =
     (if startswith h ''http://'' \<or> startswith h ''https://'' then
        normalize_links W url links (absolute_links @ [h])
      else if startswith h ''//'' then
        normalize_links W url links (absolute_links @ [''https:'' @ h])
      else if startswith h ''/'' then
        (case urljoin W url h of
           Inl e \<Rightarrow> normalize_links W url links absolute_links
         | Inr a \<Rightarrow> normalize_links W url links (absolute_links @ [a]))
      else normalize_links W url links absolute_links)"

text \<open>The body of the outer \<open>try\<close> block of \<open>_extract_links_from_page\<close>.\<close>

definition extract_links_try ::
  "'w web \<Rightarrow> string \<Rightarrow> 'w \<Rightarrow> (error + string list) \<times> 'w" where
  "extract_links_try W url w =
     (case requests_get W url w of
        (Inl e, w') \<Rightarrow> (Inl e, w')
      | (Inr response, w') \<Rightarrow>
          (if \<not> response_ok response then (Inr [], w')
           else (case find_all_href W (resp_text response) of
                   Inl e \<Rightarrow> (Inl e, w')
                 | Inr links \<Rightarrow> (Inr (normalize_links W url links []), w'))))"

text \<open>\<open>_extract_links_from_page\<close>: \<open>except Exception: return []\<close> around that body.\<close>

definition extract_links_from_page ::
  "'w web \<Rightarrow> string \<Rightarrow> 'w \<Rightarrow> (error + string list) \<times> 'w" where
  "extract_links_from_page W url w =
     (case extract_links_try W url w of
        (Inl e, w') \<Rightarrow> (Inr [], w')
      | (Inr links, w') \<Rightarrow> (Inr links, w'))"

text \<open>\<open>_search_web\<close>: no exception handler; the result dictionaries are rebuilt with
  the defaults of \<open>result.get(.., "")\<close>.\<close>

definition to_hit :: "ddg_result \<Rightarrow> search_hit" where
  "to_hit result = \<lparr>hit_title = get_or (r_title result) [],
                    href = get_or (r_href result) [],
                    snippet = get_or (r_body result) []\<rparr>"

definition search_web ::
  "'w web \<Rightarrow> string \<Rightarrow> int \<Rightarrow> 'w \<Rightarrow> (error + search_hit list) \<times> 'w" where
  "search_web W query max_results w =
     (case ddgs_text W query max_results w of
        (Inl e, w') \<Rightarrow> (Inl e, w')
      | (Inr results, w') \<Rightarrow> (Inr (map to_hit results), w'))"

section \<open>Candidate pipeline (\<open>perform_search_and_extract\<close>)\<close>

text \<open>Loop 1, direct links from the search results.\<close>

fun direct_loop ::
  "'w web \<Rightarrow> string list \<Rightarrow> search_hit list \<Rightarrow> candidate list \<Rightarrow> 'w
     \<Rightarrow> (error + candidate list) \<times> 'w" where
  "direct_loop W exts [] candidates w = (Inr candidates, w)"
| "direct_loop W exts (r # rs) candidates w =
     (if is_direct_file_url (href r) exts then
        (case head_content_type W (href r) w of
           (Inl e, w') \<Rightarrow> (Inl e, w')
         | (Inr ct, w') \<Rightarrow>
             direct_loop W exts rs
               (candidates @ [\<lparr>title = hit_title r, source_page = href r,
                               direct_url = href r, reason = Matched_by_extension,
                               content_type = py_or ct []\<rparr>]) w')
      else direct_loop W exts rs candidates w)"

text \<open>The inner loop of loop 2, over the links of one result page.\<close>

fun link_loop ::
  "'w web \<Rightarrow> string list \<Rightarrow> search_hit \<Rightarrow> string \<Rightarrow> string list \<Rightarrow> candidate list \<Rightarrow> 'w
     \<Rightarrow> (error + candidate list) \<times> 'w" where
  "link_loop W exts r page_url [] candidates w = (Inr candidates, w)"
| "link_loop W exts r page_url (link # links) candidates w =
     (if is_direct_file_url link exts then
        (case head_content_type W link w of
           (Inl e, w') \<Rightarrow> (Inl e, w')
         | (Inr ct, w') \<Rightarrow>
             link_loop W exts r page_url links
               (candidates @ [\<lparr>title = hit_title r, source_page = page_url,
                               direct_url = link, reason = Found_on_page,
                               content_type = py_or ct []\<rparr>]) w')
      else link_loop W exts r page_url links candidates w)"

text \<open>Loop 2, links extracted from the result pages; a raising extractor counts as a
  page without links.\<close>

fun page_loop ::
  "'w web \<Rightarrow> string list \<Rightarrow> search_hit list \<Rightarrow> candidate list \<Rightarrow> 'w
     \<Rightarrow> (error + candidate list) \<times> 'w" where
  "page_loop W exts [] candidates w = (Inr candidates, w)"
| "page_loop W exts (r # rs) candidates w =
     (if href r = [] \<or> \<not> startswith_any (href r) ALLOWED_SCHEMES then
        page_loop W exts rs candidates w
      else
        (case extract_links_from_page W (href r) w of
           (Inl e, w') \<Rightarrow> page_loop W exts rs candidates w'
         | (Inr page_links, w') \<Rightarrow>
             (case link_loop W exts r (href r) page_links candidates w' of
                (Inl e, w'') \<Rightarrow> (Inl e, w'')
              | (Inr candidates', w'') \<Rightarrow> page_loop W exts rs candidates' w'')))"

text \<open>The deduplication loop: \<open>if not url or url in seen: continue\<close>.\<close>

fun dedup_loop :: "candidate list \<Rightarrow> string set \<Rightarrow> candidate list \<Rightarrow> candidate list" where
  "dedup_loop [] seen unique_candidates = unique_candidates"
| "dedup_loop (c # cs) seen unique_candidates =
     (if direct_url c = [] \<or> direct_url c \<in> seen then dedup_loop cs seen unique_candidates
      else dedup_loop cs (insert (direct_url c) seen) (unique_candidates @ [c]))"

definition default_extensions :: "string list" where
  "default_extensions = [''pdf'', ''zip'', ''mp3'', ''mp4'', ''docx'', ''xlsx'', ''pptx'',
                         ''png'', ''jpg'', ''jpeg'', ''epub'', ''txt'']"

definition enriched_query :: "string \<Rightarrow> string list option \<Rightarrow> string" where
  "enriched_query query extra_terms =
     (let terms = (case extra_terms of None \<Rightarrow> [] | Some ts \<Rightarrow> ts)
      in if terms \<noteq> [] then (query @ '' '') @ join '' '' terms else query)"

definition extensions_or_default :: "string list option \<Rightarrow> string list" where
  "extensions_or_default preferred_extensions =
     (case preferred_extensions of None \<Rightarrow> default_extensions | Some exts \<Rightarrow> exts)"

text \<open>The candidates collected by loop 1 and then loop 2, before deduplication.\<close>

definition collect_candidates ::
  "'w web \<Rightarrow> string list \<Rightarrow> search_hit list \<Rightarrow> 'w \<Rightarrow> (error + candidate list) \<times> 'w" where
  "collect_candidates W exts raw_results w =
     (case direct_loop W exts raw_results [] w of
        (Inl e, w') \<Rightarrow> (Inl e, w')
      | (Inr candidates, w') \<Rightarrow> page_loop W exts raw_results candidates w')"

definition perform_search_and_extract ::
  "'w web \<Rightarrow> string \<Rightarrow> string list option \<Rightarrow> string list option \<Rightarrow> int \<Rightarrow> 'w
     \<Rightarrow> (error + candidate list) \<times> 'w" where
  "perform_search_and_extract W query extra_terms preferred_extensions max_results w =
     (case search_web W (enriched_query query extra_terms) max_results w of
        (Inl e, w1) \<Rightarrow> (Inl e, w1)
      | (Inr raw_results, w1) \<Rightarrow>
          (case collect_candidates W (extensions_or_default preferred_extensions)
                  raw_results w1 of
             (Inl e, w2) \<Rightarrow> (Inl e, w2)
           | (Inr candidates, w2) \<Rightarrow> (Inr (dedup_loop candidates {} []), w2)))"

section \<open>Download proxy (\<open>app/downloader.py\<close>)\<close>

definition SAFE_CONTENT_TYPES :: "string set" where
  "SAFE_CONTENT_TYPES = {
     ''application/pdf'',
     ''application/zip'',
     ''application/x-zip-compressed'',
     ''application/octet-stream'',
     ''audio/mpeg'',
     ''audio/mp3'',
     ''video/mp4'',
     ''application/vnd.openxmlformats-officedocument.wordprocessingml.document'',
     ''application/vnd.openxmlformats-officedocument.spreadsheetml.sheet'',
     ''application/vnd.openxmlformats-officedocument.presentationml.presentation'',
     ''image/png'',
     ''image/jpeg'',
     ''text/plain'',
     ''application/epub+zip''}"

text \<open>
  What an \<open>await\<close> of the download proxy can raise: an instance of \<open>Exception\<close>, or
  \<open>asyncio.CancelledError\<close> when the task of the request is cancelled at that
  \<open>await\<close> (the client went away). \<open>CancelledError\<close> is a \<open>BaseException\<close> and not an
  \<open>Exception\<close>: \<open>except Exception\<close> does not catch it, \<open>finally\<close> runs for it.
\<close>

datatype raised = Exc error | CancelledError

text \<open>
  The upstream server as the aiohttp session shows it, taken as a parameter:
  \<open>session.head(url, ..)\<close> raises or answers with a status and possibly a
  \<open>Content-Type\<close> header; \<open>session.get(url, ..)\<close> raises or answers with a status and a
  body, given as the results of the successive \<open>resp.content.read(64 KiB)\<close> calls (each
  may raise); a read past the end of that list returns the empty chunk.
\<close>

type_synonym bytes = string

record head_response =
  head_status :: int
  head_content_type_header :: "string option"

record get_response =
  get_status :: int
  get_body :: "(raised + bytes) list"

record upstream =
  session_head :: "string \<Rightarrow> raised + head_response"
  session_get :: "string \<Rightarrow> raised + get_response"

text \<open>What happens to the session and on the wire, in order.\<close>

datatype event = Session_created | Head_request string | Get_request string | Body_read
  | Session_closed

text \<open>The async generator \<open>iterator()\<close> before its first step: a closure over the session
  and the URL.\<close>

datatype body_iterator = Iterator (iterator_url: string)

record streaming_response =
  media_type :: string
  headers :: "(string \<times> string) list"
  body :: body_iterator

text \<open>\<open>url.split("/")[-1].split("?")[0] or "download"\<close>\<close>

definition disposition_name :: "string \<Rightarrow> string" where
  "disposition_name url =
     (let name = split_first CHR ''?'' (split_last CHR ''/'' url)
      in if name = [] then ''download'' else name)"

text \<open>\<open>head_resp.headers.get("Content-Type", "application/octet-stream")
  .split(";")[0].strip().lower()\<close>\<close>

definition negotiated_content_type :: "string option \<Rightarrow> string" where
  "negotiated_content_type header =
     lower (strip (split_first CHR '';'' (get_or header ''application/octet-stream'')))"

text \<open>\<open>content_type or "application/octet-stream"\<close>, the media type handed to the
  response.\<close>

definition media_type_or_default :: "string option \<Rightarrow> string" where
  "media_type_or_default header =
     py_or (Some (negotiated_content_type header)) ''application/octet-stream''"

text \<open>
  \<open>StreamingResponse(content, media_type=.., headers=..)\<close> of Starlette: the constructor
  encodes the names and values of the headers and the media type as Latin-1 and raises
  \<open>UnicodeEncodeError\<close> when one of them has a character outside Latin-1.
\<close>

definition StreamingResponse ::
  "body_iterator \<Rightarrow> string \<Rightarrow> (string \<times> string) list \<Rightarrow> error + streaming_response" where
  "StreamingResponse content mtype hdrs =
     (if list_all (\<lambda>(k, v). latin1_encodable k \<and> latin1_encodable v) hdrs
         \<and> latin1_encodable mtype
      then Inr \<lparr>media_type = mtype, headers = hdrs, body = content\<rparr>
      else Inl (Error ''UnicodeEncodeError''))"

text \<open>The \<open>Content-Disposition\<close> header of the response.\<close>

definition disposition_headers :: "string \<Rightarrow> (string \<times> string) list" where
  "disposition_headers name =
     [(''Content-Disposition'',
       ''attachment; filename='' @ [CHR 0x22] @ name @ [CHR 0x22])]"

text \<open>The body of the \<open>try\<close> block of \<open>stream_file_download\<close>, up to its \<open>return\<close>.\<close>

definition stream_file_download_try ::
  "upstream \<Rightarrow> string \<Rightarrow> (raised + streaming_response) \<times> event list" where
  "stream_file_download_try U url =
     (case session_head U url of
        Inl r \<Rightarrow> (Inl r, [Head_request url])
      | Inr head_resp \<Rightarrow>
          (if head_status head_resp \<ge> 400 then
             (Inl (Exc (HTTPException (head_status head_resp)
                          (Upstream_status (head_status head_resp)))), [Head_request url])
           else
             (let headers = disposition_headers (disposition_name url)
              in (case StreamingResponse (Iterator url)
                         (media_type_or_default (head_content_type_header head_resp)) headers of
                    Inl e \<Rightarrow> (Inl (Exc e), [Head_request url])
                  | Inr resp \<Rightarrow> (Inr resp, [Head_request url])))))"

text \<open>\<open>stream_file_download\<close>: the scheme check before the session exists, then the
  \<open>try\<close> block with \<open>except Exception: await session.close(); raise\<close>, which a
  \<open>CancelledError\<close> passes by.\<close>

definition stream_file_download ::
  "upstream \<Rightarrow> string \<Rightarrow> (raised + streaming_response) \<times> event list" where
  "stream_file_download U url =
     (if \<not> (startswith url ''http://'' \<or> startswith url ''https://'') then
        (Inl (Exc (HTTPException 400 Invalid_URL_scheme)), [])
      else
        (case stream_file_download_try U url of
           (Inl (Exc e), evs) \<Rightarrow> (Inl (Exc e), Session_created # evs @ [Session_closed])
         | (Inl CancelledError, evs) \<Rightarrow> (Inl CancelledError, Session_created # evs)
         | (Inr resp, evs) \<Rightarrow> (Inr resp, Session_created # evs)))"

text \<open>
  The caller of the returned iterator either takes chunks until the iterator ends, or
  closes it after it has taken a given number of chunks (after none: the generator is
  closed before its first step and its body never runs).
\<close>

datatype consumer = Consume_all | Close_after nat

text \<open>How a run of a generator ends: its body returns, it raises, or it is closed by the
  consumer while suspended at a \<open>yield\<close>.\<close>

datatype outcome = Exhausted | Raised raised | Closed

text \<open>The \<open>while True\<close> loop of \<open>_stream_content\<close>, driven by the consumer: the chunks
  handed over, how the run ends, and the reads made.\<close>

fun read_loop :: "(raised + bytes) list \<Rightarrow> consumer \<Rightarrow> bytes list \<times> outcome \<times> event list" where
  "read_loop [] c = ([], Exhausted, [Body_read])"
| "read_loop (Inl e # rest) c = ([], Raised e, [Body_read])"
| "read_loop (Inr chunk # rest) c =
     (if chunk = [] then ([], Exhausted, [Body_read])
      else (case c of
              Consume_all \<Rightarrow>
                (case read_loop rest Consume_all of
                   (chunks, out, evs) \<Rightarrow> (chunk # chunks, out, Body_read # evs))
            | Close_after k \<Rightarrow>
                (if k \<le> 1 then ([chunk], Closed, [Body_read])
                 else (case read_loop rest (Close_after (k - 1)) of
                         (chunks, out, evs) \<Rightarrow> (chunk # chunks, out, Body_read # evs)))))"

text \<open>\<open>_stream_content\<close>: the GET request, the status check, the read loop.\<close>

definition stream_content ::
  "upstream \<Rightarrow> string \<Rightarrow> consumer \<Rightarrow> bytes list \<times> outcome \<times> event list" where
  "stream_content U url c =
     (case session_get U url of
        Inl r \<Rightarrow> ([], Raised r, [Get_request url])
      | Inr resp \<Rightarrow>
          (if get_status resp \<ge> 400 then
             ([], Raised (Exc (HTTPException (get_status resp)
                                (Upstream_status (get_status resp)))),
              [Get_request url])
           else (case read_loop (get_body resp) c of
                   (chunks, out, evs) \<Rightarrow> (chunks, out, Get_request url # evs))))"

text \<open>\<open>iterator()\<close>: \<open>try: async for chunk in _stream_content(..): yield chunk\<close>
  \<open>finally: await session.close()\<close>, once the generator has been started.\<close>

definition iterator ::
  "upstream \<Rightarrow> body_iterator \<Rightarrow> consumer \<Rightarrow> bytes list \<times> outcome \<times> event list" where
  "iterator U it c =
     (if c = Close_after 0 then ([], Closed, [])
      else (case stream_content U (iterator_url it) c of
              (chunks, out, evs) \<Rightarrow> (chunks, out, evs @ [Session_closed])))"

text \<open>One whole download: \<open>stream_file_download\<close>, then the consumer running the
  iterator of the response it got. The events of both, in order.\<close>

definition download ::
  "upstream \<Rightarrow> string \<Rightarrow> consumer
     \<Rightarrow> (raised + streaming_response \<times> bytes list \<times> outcome) \<times> event list" where
  "download U url c =
     (case stream_file_download U url of
        (Inl e, evs) \<Rightarrow> (Inl e, evs)
      | (Inr resp, evs) \<Rightarrow>
          (case iterator U (body resp) c of
             (chunks, out, evs') \<Rightarrow> (Inr (resp, chunks, out), evs @ evs')))"

text \<open>
  The disposition name as the specification words it: the last segment of the URL's
  path, the query string removed first; a fixed default when that segment is empty.
  The path starts at the first slash after the authority.
\<close>

definition spec_url_path :: "string \<Rightarrow> string" where
  "spec_url_path url =
     (let no_query = split_first CHR ''?'' url;
          after_scheme = (if startswith no_query ''https://'' then drop 8 no_query
                          else if startswith no_query ''http://'' then drop 7 no_query
                          else no_query)
      in dropWhile (\<lambda>c. c \<noteq> CHR ''/'') after_scheme)"

definition spec_disposition_name :: "string \<Rightarrow> string" where
  "spec_disposition_name url =
     (let name = split_last CHR ''/'' (spec_url_path url)
      in if name = [] then ''download'' else name)"

section \<open>Example worlds\<close>

text \<open>A stand-in for \<open>urljoin\<close> on root-relative references: the origin of an https
  base URL followed by the reference.\<close>

definition example_urljoin :: "string \<Rightarrow> string \<Rightarrow> error + string" where
  "example_urljoin base h = Inr (take 8 base @ takeWhile (\<lambda>c. c \<noteq> CHR ''/'') (drop 8 base) @ h)"

definition example_hrefs :: "string list" where
  "example_hrefs = [''https://example.edu/os.pdf'', ''//cdn.example.edu/notes.pdf'',
                    ''/files/slides.zip'', ''lab.pdf'', ''mailto:staff@example.edu'',
                    ''/about'']"

text \<open>A search backend with two hits, a file and a course page that links to files;
  only the first file answers the content-type probe. The world state counts the
  network calls.\<close>

definition example_web :: "nat web" where
  "example_web = \<lparr>
     ddgs_text = (\<lambda>q n w.
       (Inr [\<lparr>r_title = Some ''OS textbook'', r_href = Some ''https://example.edu/os.pdf'',
               r_body = Some ''PDF''\<rparr>,
             \<lparr>r_title = Some ''Course'', r_href = Some ''https://example.edu/course'',
               r_body = None\<rparr>], Suc w)),
     requests_head = (\<lambda>u w.
       (if u = ''https://example.edu/os.pdf'' then Inr (Some ''Application/PDF; charset=binary'')
        else Inl (Error ''timeout''), Suc w)),
     requests_get = (\<lambda>u w.
       (if u = ''https://example.edu/course''
        then Inr \<lparr>status_code = 200, resp_text = ''<html>course</html>''\<rparr>
        else Inr \<lparr>status_code = 404, resp_text = []\<rparr>, Suc w)),
     find_all_href = (\<lambda>t. Inr example_hrefs),
     urljoin = example_urljoin\<rparr>"

text \<open>The same web with a search backend that raises, with one that finds nothing, and
  with a content-type probe that always times out.\<close>

definition failing_search_web :: "nat web" where
  "failing_search_web =
     example_web\<lparr>ddgs_text := (\<lambda>q n w. (Inl (Error ''search backend timeout''), Suc w))\<rparr>"

definition no_hits_web :: "nat web" where
  "no_hits_web = example_web\<lparr>ddgs_text := (\<lambda>q n w. (Inr [], Suc w))\<rparr>"

definition no_probe_web :: "nat web" where
  "no_probe_web = example_web\<lparr>requests_head := (\<lambda>u w. (Inl (Error ''timeout''), Suc w))\<rparr>"

text \<open>The same web where every page fetch answers with the given status.\<close>

definition status_web :: "int \<Rightarrow> nat web" where
  "status_web st =
     example_web\<lparr>requests_get :=
       (\<lambda>u w. (Inr \<lparr>status_code = st, resp_text = ''<html>course</html>''\<rparr>, Suc w))\<rparr>"

text \<open>A file name and a media type with Cyrillic letters, in UTF-8: the name reads
  \<open>fail.pdf\<close> in Cyrillic, the media type is \<open>text/plain\<close> with a Cyrillic first
  letter.\<close>

definition cyrillic_name :: string where
  "cyrillic_name = [CHR 0xD1, CHR 0x84, CHR 0xD0, CHR 0xB0, CHR 0xD0, CHR 0xB9,
                    CHR 0xD0, CHR 0xBB] @ ''.pdf''"

definition cyrillic_media_type :: string where
  "cyrillic_media_type = [CHR 0xD1, CHR 0x82] @ ''ext/plain''"

text \<open>An upstream file server: one file served as HTML in two chunks, one missing file,
  one file whose transfer breaks after the first chunk, one file that is gone by the
  time of the GET, one file declared with the Cyrillic media type, one file with the
  Cyrillic name, and no answer for anything else.\<close>

definition example_upstream :: upstream where
  "example_upstream = \<lparr>
     session_head = (\<lambda>u.
       if u = ''https://host/path/report.pdf?x=1''
       then Inr \<lparr>head_status = 200, head_content_type_header = Some ''Text/HTML; charset=utf-8''\<rparr>
       else if u = ''https://host/missing.pdf''
       then Inr \<lparr>head_status = 404, head_content_type_header = None\<rparr>
       else if u = ''https://host/broken.bin'' \<or> u = ''https://host/gone.bin''
       then Inr \<lparr>head_status = 200, head_content_type_header = None\<rparr>
       else if u = ''https://host/typed.bin''
       then Inr \<lparr>head_status = 200, head_content_type_header = Some cyrillic_media_type\<rparr>
       else if u = ''https://host/'' @ cyrillic_name
       then Inr \<lparr>head_status = 200, head_content_type_header = Some ''application/pdf''\<rparr>
       else Inl (Exc (Error ''connection refused''))),
     session_get = (\<lambda>u.
       if u = ''https://host/path/report.pdf?x=1''
       then Inr \<lparr>get_status = 200, get_body = [Inr ''chunk one'', Inr ''chunk two'']\<rparr>
       else if u = ''https://host/broken.bin''
       then Inr \<lparr>get_status = 200,
                 get_body = [Inr ''chunk one'', Inl (Exc (Error ''connection reset''))]\<rparr>
       else if u = ''https://host/gone.bin''
       then Inr \<lparr>get_status = 410, get_body = []\<rparr>
       else Inl (Exc (Error ''connection refused'')))\<rparr>"

text \<open>The same upstream for a request whose task is cancelled while the HEAD request is
  awaited.\<close>

definition cancelled_probe_upstream :: upstream where
  "cancelled_probe_upstream = example_upstream\<lparr>session_head := (\<lambda>u. Inl CancelledError)\<rparr>"

section \<open>The specification's wording of link resolution and deduplication\<close>

text \<open>
  How one hyperlink target is resolved, as the specification lists it: an absolute
  \<open>http://\<close> or \<open>https://\<close> target is kept, a scheme-relative one is prefixed with
  \<open>https:\<close>, a root-relative one is joined to the page URL (and dropped should the
  join raise), every other form is dropped.
\<close>

definition spec_resolve_link :: "'w web \<Rightarrow> string \<Rightarrow> string \<Rightarrow> string option" where
  "spec_resolve_link W page_url h =
     (if startswith h ''http://'' \<or> startswith h ''https://'' then Some h
      else if startswith h ''//'' then Some (''https:'' @ h)
      else if startswith h ''/'' then
        (case urljoin W page_url h of Inl e \<Rightarrow> None | Inr a \<Rightarrow> Some a)
      else None)"

text \<open>Deduplication by \<open>direct_url\<close> as the specification words it: the first
  occurrence of each URL is kept, in the order of the input.\<close>

fun spec_dedup :: "candidate list \<Rightarrow> candidate list" where
  "spec_dedup [] = []"
| "spec_dedup (c # cs) = c # spec_dedup (filter (\<lambda>d. direct_url d \<noteq> direct_url c) cs)"

text \<open>A content-type probe that fails: the HEAD request raises (timeout, connection
  error) or its response has no \<open>Content-Type\<close> header.\<close>

definition probe_fails :: "'w web \<Rightarrow> string \<Rightarrow> 'w \<Rightarrow> bool" where
  "probe_fails W url w =
     (case fst (requests_head W url w) of
        Inl e \<Rightarrow> True
      | Inr None \<Rightarrow> True
      | Inr (Some ctype) \<Rightarrow> False)"

text \<open>The example web with page fetches that time out, and with pages that do not
  parse.\<close>

definition unreachable_web :: "nat web" where
  "unreachable_web =
     example_web\<lparr>requests_get := (\<lambda>u w. (Inl (Error ''read timeout''), Suc w))\<rparr>"

definition unparsable_web :: "nat web" where
  "unparsable_web = example_web\<lparr>find_all_href := (\<lambda>t. Inl (Error ''parser error''))\<rparr>"

text \<open>What the pipeline returns on the example web with the default extensions, and on
  the example web without content-type probes.\<close>

definition example_candidates :: "candidate list" where
  "example_candidates =
     [\<lparr>title = ''OS textbook'', source_page = ''https://example.edu/os.pdf'',
       direct_url = ''https://example.edu/os.pdf'', reason = Matched_by_extension,
       content_type = ''application/pdf''\<rparr>,
      \<lparr>title = ''Course'', source_page = ''https://example.edu/course'',
       direct_url = ''https://cdn.example.edu/notes.pdf'', reason = Found_on_page,
       content_type = []\<rparr>,
      \<lparr>title = ''Course'', source_page = ''https://example.edu/course'',
       direct_url = ''https://example.edu/files/slides.zip'', reason = Found_on_page,
       content_type = []\<rparr>]"

definition no_probe_candidates :: "candidate list" where
  "no_probe_candidates = map (\<lambda>c. c\<lparr>content_type := []\<rparr>) example_candidates"

section \<open>Properties of the link classifier\<close>

lemma ext_loop_list_ex:
  "ext_loop lowered exts = list_ex (\<lambda>e. endswith lowered (''.'' @ strip_chars ''.'' e)) exts"
  by (induction exts) auto

lemma dropWhile_dot_id: "\<not> startswith e ''.'' \<Longrightarrow> dropWhile (\<lambda>c. c \<in> set ''.'') e = e"
  by (cases e) (auto simp: startswith_def)

lemma strip_dots_id:
  assumes "\<not> startswith e ''.''" and "\<not> endswith e ''.''"
  shows "strip_chars ''.'' e = e"
proof -
  have "\<not> startswith (rev e) ''.''"
    using assms(2) by (cases e rule: rev_cases) (auto simp: startswith_def endswith_def)
  then have b: "dropWhile (\<lambda>c. c \<in> set ''.'') (rev e) = rev e"
    by (rule dropWhile_dot_id)
  have a: "dropWhile (\<lambda>c. c \<in> set ''.'') e = e"
    using assms(1) by (rule dropWhile_dot_id)
  show ?thesis
    by (simp only: strip_chars_def a b rev_rev_ident)
qed

lemma lower_dot: "lower (CHR ''.'' # e) = CHR ''.'' # lower e"
  by (simp add: lower_def lower_char_def ascii_uppercase_def ascii_lowercase_def)

lemma startswith_any_schemes:
  "startswith_any u ALLOWED_SCHEMES = (startswith u ''http://'' \<or> startswith u ''https://'')"
  by (simp add: startswith_any_def ALLOWED_SCHEMES_def)

lemma startswith_Nil: "p \<noteq> [] \<Longrightarrow> \<not> startswith [] p"
  by (simp add: startswith_def)

text \<open>
  C3, as amended. For every URL \<open>u\<close> and every allowlist \<open>A\<close> of lowercase extensions
  with no leading and no trailing dot, \<open>_is_direct_file_url(u, A)\<close> is true if and only
  if \<open>u\<close> starts with \<open>http://\<close> or \<open>https://\<close> and \<open>u\<close> with its query string
  stripped ends, case-insensitively, with a dot followed by some extension of \<open>A\<close>. The
  empty URL and every URL with another prefix (ftp, scheme-relative, relative) give
  false. The function is a pure function of \<open>u\<close> and \<open>A\<close>.
\<close>

theorem is_direct_file_url_spec:
  assumes "\<forall>e\<in>set A. dot_stripped_ext e"
  shows "is_direct_file_url u A = spec_is_direct_file u A
         \<and> (u = [] \<or> \<not> (startswith u ''http://'' \<or> startswith u ''https://'')
              \<longrightarrow> \<not> is_direct_file_url u A)"
proof -
  have ext: "''.'' @ strip_chars ''.'' e = lower (''.'' @ e)" if "e \<in> set A" for e
    using assms that by (simp add: dot_stripped_ext_def strip_dots_id lower_dot)
  have "list_ex (\<lambda>e. endswith l (''.'' @ strip_chars ''.'' e)) A
          = list_ex (\<lambda>e. endswith l (lower (''.'' @ e))) A" for l
    unfolding list_ex_iff using ext by (metis (no_types, lifting))
  then have "is_direct_file_url u A = spec_is_direct_file u A"
    by (auto simp: is_direct_file_url_def spec_is_direct_file_def ext_loop_list_ex
        startswith_any_schemes startswith_Nil)
  moreover have "u = [] \<or> \<not> (startswith u ''http://'' \<or> startswith u ''https://'')
           \<longrightarrow> \<not> is_direct_file_url u A"
    by (auto simp: is_direct_file_url_def startswith_any_schemes)
  ultimately show ?thesis by blast
qed

text \<open>The amended C3 at the allowlist \<open>pdf, zip\<close>: an upper-case file name with a query
  string is a direct file; the \<open>ftp\<close> and the relative URL of the specification are not.\<close>

theorem is_direct_file_url_spec_witness:
  "dot_stripped_ext ''pdf'' \<and> dot_stripped_ext ''zip''
   \<and> is_direct_file_url ''https://example.edu/os.PDF?download=1'' [''pdf'', ''zip'']
   \<and> spec_is_direct_file ''https://example.edu/os.PDF?download=1'' [''pdf'', ''zip'']
   \<and> \<not> is_direct_file_url ''ftp://x/file.pdf'' [''pdf'', ''zip'']
   \<and> \<not> is_direct_file_url ''/relative/file.pdf'' [''pdf'', ''zip'']"
proof -
  have h: "\<forall>e\<in>set [''pdf'', ''zip'']. dot_stripped_ext e" by code_simp
  have d: "is_direct_file_url ''https://example.edu/os.PDF?download=1'' [''pdf'', ''zip'']"
    by code_simp
  have f: "\<not> (startswith ''ftp://x/file.pdf'' ''http://''
               \<or> startswith ''ftp://x/file.pdf'' ''https://'')"
    by code_simp
  have r: "\<not> (startswith ''/relative/file.pdf'' ''http://''
               \<or> startswith ''/relative/file.pdf'' ''https://'')"
    by code_simp
  have p: "dot_stripped_ext ''pdf'' \<and> dot_stripped_ext ''zip''"
    using h by simp
  show ?thesis
    using p d f r
      is_direct_file_url_spec[OF h, of "''https://example.edu/os.PDF?download=1''"]
      is_direct_file_url_spec[OF h, of "''ftp://x/file.pdf''"]
      is_direct_file_url_spec[OF h, of "''/relative/file.pdf''"]
    by blast
qed

text \<open>C3 as stated fails: \<open>pdf.\<close> is lowercase and has no leading dot, the code strips
  its trailing dot and accepts \<open>http://x/a.pdf\<close>, which does not end with \<open>.pdf.\<close>\<close>

theorem is_direct_file_url_trailing_dot_counterexample:
  "spec_normalized_ext ''pdf.''
   \<and> is_direct_file_url ''http://x/a.pdf'' [''pdf.'']
   \<and> \<not> spec_is_direct_file ''http://x/a.pdf'' [''pdf.'']"
  by code_simp

section \<open>Properties of the page link extractor\<close>

lemma normalize_links_map_filter:
  "normalize_links W url links acc = acc @ List.map_filter (spec_resolve_link W url) links"
  by (induction links arbitrary: acc)
     (auto simp: spec_resolve_link_def List.map_filter_simps split: sum.splits)



text \<open>
  C6, as amended. \<open>_extract_links_from_page\<close> never raises: it always returns a list.
  It returns the empty list when the GET raises (network error, timeout), when the
  response has a client or server error status (\<open>400 \<le> status < 600\<close>, the statuses for
  which \<open>response.ok\<close> is false), and when parsing the page raises. A response with
  any other status is parsed: when its page parses, the resolved links of the page are
  returned.
\<close>

theorem extract_links_never_raises:
  "(\<exists>links w'. extract_links_from_page W url w = (Inr links, w'))
   \<and> (\<forall>e w'. requests_get W url w = (Inl e, w')
         \<longrightarrow> extract_links_from_page W url w = (Inr [], w'))
   \<and> (\<forall>r w'. requests_get W url w = (Inr r, w') \<and> 400 \<le> status_code r \<and> status_code r < 600
         \<longrightarrow> extract_links_from_page W url w = (Inr [], w'))
   \<and> (\<forall>r w' e. requests_get W url w = (Inr r, w') \<and> find_all_href W (resp_text r) = Inl e
         \<longrightarrow> extract_links_from_page W url w = (Inr [], w'))
   \<and> (\<forall>r w' hrefs. requests_get W url w = (Inr r, w')
           \<and> \<not> (400 \<le> status_code r \<and> status_code r < 600)
           \<and> find_all_href W (resp_text r) = Inr hrefs
         \<longrightarrow> extract_links_from_page W url w
               = (Inr (List.map_filter (spec_resolve_link W url) hrefs), w'))"
  by (auto simp: extract_links_from_page_def extract_links_try_def response_ok_def
      normalize_links_map_filter split: prod.splits sum.splits)

text \<open>The amended C6 on a fetch that times out, on the statuses 500 and 404, on a
  page that does not parse, and on the status 600, which is parsed.\<close>

theorem extract_links_never_raises_witness:
  "extract_links_from_page unreachable_web ''https://example.edu/course'' 0 = (Inr [], 1)
   \<and> extract_links_from_page (status_web 500) ''https://example.edu/course'' 0 = (Inr [], 1)
   \<and> extract_links_from_page (status_web 404) ''https://example.edu/course'' 0 = (Inr [], 1)
   \<and> extract_links_from_page unparsable_web ''https://example.edu/course'' 0 = (Inr [], 1)
   \<and> extract_links_from_page (status_web 600) ''https://example.edu/course'' 0
       = (Inr [''https://example.edu/os.pdf'', ''https://cdn.example.edu/notes.pdf'',
               ''https://example.edu/files/slides.zip'', ''https://example.edu/about''], 1)"
proof -
  have a: "requests_get unreachable_web ''https://example.edu/course'' 0
             = (Inl (Error ''read timeout''), 1)"
    by (simp add: unreachable_web_def example_web_def)
  have b: "requests_get (status_web 500) ''https://example.edu/course'' 0
             = (Inr \<lparr>status_code = 500, resp_text = ''<html>course</html>''\<rparr>, 1)
           \<and> 400 \<le> status_code \<lparr>status_code = 500, resp_text = ''<html>course</html>''\<rparr>
           \<and> status_code \<lparr>status_code = 500, resp_text = ''<html>course</html>''\<rparr> < 600"
    by (simp add: status_web_def example_web_def)
  have c: "requests_get (status_web 404) ''https://example.edu/course'' 0
             = (Inr \<lparr>status_code = 404, resp_text = ''<html>course</html>''\<rparr>, 1)
           \<and> 400 \<le> status_code \<lparr>status_code = 404, resp_text = ''<html>course</html>''\<rparr>
           \<and> status_code \<lparr>status_code = 404, resp_text = ''<html>course</html>''\<rparr> < 600"
    by (simp add: status_web_def example_web_def)
  have d: "requests_get unparsable_web ''https://example.edu/course'' 0
             = (Inr \<lparr>status_code = 200, resp_text = ''<html>course</html>''\<rparr>, 1)
           \<and> find_all_href unparsable_web
                (resp_text \<lparr>status_code = 200, resp_text = ''<html>course</html>''\<rparr>)
               = Inl (Error ''parser error'')"
    by (simp add: unparsable_web_def example_web_def)
  have w1: "extract_links_from_page unreachable_web ''https://example.edu/course'' 0 = (Inr [], 1)"
    using a extract_links_never_raises[of unreachable_web "''https://example.edu/course''" 0]
    by blast
  have w2: "extract_links_from_page (status_web 500) ''https://example.edu/course'' 0 = (Inr [], 1)"
    using b extract_links_never_raises[of "status_web 500" "''https://example.edu/course''" 0]
    by blast
  have w3: "extract_links_from_page (status_web 404) ''https://example.edu/course'' 0 = (Inr [], 1)"
    using c extract_links_never_raises[of "status_web 404" "''https://example.edu/course''" 0]
    by blast
  have w4: "extract_links_from_page unparsable_web ''https://example.edu/course'' 0 = (Inr [], 1)"
    using d extract_links_never_raises[of unparsable_web "''https://example.edu/course''" 0]
    by blast
  have e: "requests_get (status_web 600) ''https://example.edu/course'' 0
             = (Inr \<lparr>status_code = 600, resp_text = ''<html>course</html>''\<rparr>, 1)
           \<and> \<not> (400 \<le> status_code \<lparr>status_code = 600, resp_text = ''<html>course</html>''\<rparr>
                \<and> status_code \<lparr>status_code = 600, resp_text = ''<html>course</html>''\<rparr> < 600)
           \<and> find_all_href (status_web 600)
                (resp_text \<lparr>status_code = 600, resp_text = ''<html>course</html>''\<rparr>)
               = Inr example_hrefs"
    by (simp add: status_web_def example_web_def)
  have m: "List.map_filter (spec_resolve_link (status_web 600) ''https://example.edu/course'')
             example_hrefs
           = [''https://example.edu/os.pdf'', ''https://cdn.example.edu/notes.pdf'',
              ''https://example.edu/files/slides.zip'', ''https://example.edu/about'']"
    by code_simp
  have "extract_links_from_page (status_web 600) ''https://example.edu/course'' 0
          = (Inr (List.map_filter (spec_resolve_link (status_web 600)
                     ''https://example.edu/course'') example_hrefs), 1)"
    using e extract_links_never_raises[of "status_web 600" "''https://example.edu/course''" 0]
    by blast
  then have w5: "extract_links_from_page (status_web 600) ''https://example.edu/course'' 0
       = (Inr [''https://example.edu/os.pdf'', ''https://cdn.example.edu/notes.pdf'',
               ''https://example.edu/files/slides.zip'', ''https://example.edu/about''], 1)"
    using m by simp
  show ?thesis
    using w1 w2 w3 w4 w5 by simp
qed

text \<open>C6 as stated fails: the statuses 999 and 103 are neither 2xx nor 3xx, yet
  \<open>response.ok\<close> holds for them and the links of the page are returned.\<close>

theorem extract_links_status_counterexample:
  "extract_links_from_page (status_web 999) ''https://example.edu/course'' 0
     = (Inr [''https://example.edu/os.pdf'', ''https://cdn.example.edu/notes.pdf'',
             ''https://example.edu/files/slides.zip'', ''https://example.edu/about''], 1)
   \<and> extract_links_from_page (status_web 103) ''https://example.edu/course'' 0
     = (Inr [''https://example.edu/os.pdf'', ''https://cdn.example.edu/notes.pdf'',
             ''https://example.edu/files/slides.zip'', ''https://example.edu/about''], 1)"
  by code_simp

section \<open>Properties of the content-type prober and the collection loops\<close>

lemma head_content_type_total:
  "\<exists>v w'. head_content_type W u w = (Inr v, w')"
  by (auto simp: head_content_type_def head_content_type_try_def
      split: prod.splits sum.splits option.splits)

lemma head_content_type_fails:
  "probe_fails W u w \<Longrightarrow> \<exists>w'. head_content_type W u w = (Inr None, w')"
  by (auto simp: head_content_type_def head_content_type_try_def probe_fails_def
      split: prod.splits sum.splits option.splits)

lemma extract_links_total:
  "\<exists>links w'. extract_links_from_page W u w = (Inr links, w')"
  by (auto simp: extract_links_from_page_def split: prod.splits sum.splits)

lemma is_direct_nonempty: "is_direct_file_url u exts \<Longrightarrow> u \<noteq> []"
  by (auto simp: is_direct_file_url_def)

text \<open>What a collection loop adds to the candidates it starts from.\<close>

lemma direct_loop_adds:
  "\<exists>new w'. direct_loop W exts raw acc w = (Inr (acc @ new), w')
     \<and> map direct_url new = filter (\<lambda>u. is_direct_file_url u exts) (map href raw)
     \<and> (\<forall>c\<in>set new. reason c = Matched_by_extension \<and> source_page c = direct_url c)
     \<and> ((\<forall>u w. probe_fails W u w) \<longrightarrow> (\<forall>c\<in>set new. content_type c = []))"
proof (induction raw arbitrary: acc w)
  case Nil
  show ?case by simp
next
  case (Cons r rs)
  show ?case
  proof (cases "is_direct_file_url (href r) exts")
    case False
    with Cons.IH[of acc w] show ?thesis by simp
  next
    case True
    obtain v w1 where h: "head_content_type W (href r) w = (Inr v, w1)"
      using head_content_type_total[of W "href r" w] by blast
    have v: "v = None" if "\<forall>u w. probe_fails W u w"
      using that head_content_type_fails[of W "href r" w] h by auto
    define c where "c = \<lparr>title = hit_title r, source_page = href r, direct_url = href r,
      reason = Matched_by_extension, content_type = py_or v []\<rparr>"
    obtain new w' where n: "direct_loop W exts rs (acc @ [c]) w1 = (Inr ((acc @ [c]) @ new), w')"
      "map direct_url new = filter (\<lambda>u. is_direct_file_url u exts) (map href rs)"
      "\<forall>c\<in>set new. reason c = Matched_by_extension \<and> source_page c = direct_url c"
      "(\<forall>u w. probe_fails W u w) \<longrightarrow> (\<forall>c\<in>set new. content_type c = [])"
      using Cons.IH[of "acc @ [c]" w1] by blast
    have "direct_loop W exts (r # rs) acc w = (Inr (acc @ (c # new)), w')"
      using True h n(1) by (simp add: c_def)
    moreover have "map direct_url (c # new)
        = filter (\<lambda>u. is_direct_file_url u exts) (map href (r # rs))"
      using True n(2) by (simp add: c_def)
    moreover have "\<forall>d\<in>set (c # new). reason d = Matched_by_extension \<and> source_page d = direct_url d"
      using n(3) by (simp add: c_def)
    moreover have "(\<forall>u w. probe_fails W u w) \<longrightarrow> (\<forall>d\<in>set (c # new). content_type d = [])"
      using n(4) v by (auto simp: c_def py_or_def)
    ultimately show ?thesis by blast
  qed
qed

lemma link_loop_adds:
  "\<exists>new w'. link_loop W exts r page_url links acc w = (Inr (acc @ new), w')
     \<and> map direct_url new = filter (\<lambda>u. is_direct_file_url u exts) links
     \<and> (\<forall>c\<in>set new. reason c = Found_on_page \<and> source_page c = page_url)
     \<and> ((\<forall>u w. probe_fails W u w) \<longrightarrow> (\<forall>c\<in>set new. content_type c = []))"
proof (induction links arbitrary: acc w)
  case Nil
  show ?case by simp
next
  case (Cons l ls)
  show ?case
  proof (cases "is_direct_file_url l exts")
    case False
    with Cons.IH[of acc w] show ?thesis by simp
  next
    case True
    obtain v w1 where h: "head_content_type W l w = (Inr v, w1)"
      using head_content_type_total[of W l w] by blast
    have v: "v = None" if "\<forall>u w. probe_fails W u w"
      using that head_content_type_fails[of W l w] h by auto
    define c where "c = \<lparr>title = hit_title r, source_page = page_url, direct_url = l,
      reason = Found_on_page, content_type = py_or v []\<rparr>"
    obtain new w' where n: "link_loop W exts r page_url ls (acc @ [c]) w1 = (Inr ((acc @ [c]) @ new), w')"
      "map direct_url new = filter (\<lambda>u. is_direct_file_url u exts) ls"
      "\<forall>c\<in>set new. reason c = Found_on_page \<and> source_page c = page_url"
      "(\<forall>u w. probe_fails W u w) \<longrightarrow> (\<forall>c\<in>set new. content_type c = [])"
      using Cons.IH[of "acc @ [c]" w1] by blast
    have "link_loop W exts r page_url (l # ls) acc w = (Inr (acc @ (c # new)), w')"
      using True h n(1) by (simp add: c_def)
    moreover have "map direct_url (c # new) = filter (\<lambda>u. is_direct_file_url u exts) (l # ls)"
      using True n(2) by (simp add: c_def)
    moreover have "\<forall>d\<in>set (c # new). reason d = Found_on_page \<and> source_page d = page_url"
      using n(3) by (simp add: c_def)
    moreover have "(\<forall>u w. probe_fails W u w) \<longrightarrow> (\<forall>d\<in>set (c # new). content_type d = [])"
      using n(4) v by (auto simp: c_def py_or_def)
    ultimately show ?thesis by blast
  qed
qed

lemma page_loop_adds:
  "\<exists>new w'. page_loop W exts raw acc w = (Inr (acc @ new), w')
     \<and> (\<forall>c\<in>set new. reason c = Found_on_page \<and> is_direct_file_url (direct_url c) exts)
     \<and> ((\<forall>u w. probe_fails W u w) \<longrightarrow> (\<forall>c\<in>set new. content_type c = []))"
proof (induction raw arbitrary: acc w)
  case Nil
  show ?case by simp
next
  case (Cons r rs)
  show ?case
  proof (cases "href r = [] \<or> \<not> startswith_any (href r) ALLOWED_SCHEMES")
    case True
    with Cons.IH[of acc w] show ?thesis by simp
  next
    case False
    obtain links w1 where e: "extract_links_from_page W (href r) w = (Inr links, w1)"
      using extract_links_total[of W "href r" w] by blast
    obtain new1 w2 where l: "link_loop W exts r (href r) links acc w1 = (Inr (acc @ new1), w2)"
      "map direct_url new1 = filter (\<lambda>u. is_direct_file_url u exts) links"
      "\<forall>c\<in>set new1. reason c = Found_on_page \<and> source_page c = href r"
      "(\<forall>u w. probe_fails W u w) \<longrightarrow> (\<forall>c\<in>set new1. content_type c = [])"
      using link_loop_adds[of W exts r "href r" links acc w1] by blast
    obtain new2 w' where p: "page_loop W exts rs (acc @ new1) w2 = (Inr ((acc @ new1) @ new2), w')"
      "\<forall>c\<in>set new2. reason c = Found_on_page \<and> is_direct_file_url (direct_url c) exts"
      "(\<forall>u w. probe_fails W u w) \<longrightarrow> (\<forall>c\<in>set new2. content_type c = [])"
      using Cons.IH[of "acc @ new1" w2] by blast
    have d1: "\<forall>c\<in>set new1. is_direct_file_url (direct_url c) exts"
    proof
      fix c assume "c \<in> set new1"
      then have "direct_url c \<in> set (map direct_url new1)" by simp
      then show "is_direct_file_url (direct_url c) exts" unfolding l(2) by simp
    qed
    have "page_loop W exts (r # rs) acc w = (Inr (acc @ (new1 @ new2)), w')"
      using False e l(1) p(1) by simp
    moreover have "\<forall>c\<in>set (new1 @ new2). reason c = Found_on_page \<and> is_direct_file_url (direct_url c) exts"
      using l(3) d1 p(2) by auto
    moreover have "(\<forall>u w. probe_fails W u w) \<longrightarrow> (\<forall>c\<in>set (new1 @ new2). content_type c = [])"
      using l(4) p(3) by auto
    ultimately show ?thesis by blast
  qed
qed

section \<open>Properties of deduplication\<close>

lemma find_filter_stronger:
  "(\<And>d. P d \<Longrightarrow> Q d) \<Longrightarrow> find P (filter Q xs) = find P xs"
  by (induction xs) auto

lemma find_append_first:
  "find P (xs @ ys) = (case find P xs of None \<Rightarrow> find P ys | Some x \<Rightarrow> Some x)"
  by (induction xs) auto

lemma find_Some_member: "find P xs = Some x \<Longrightarrow> x \<in> set xs \<and> P x"
  by (induction xs) (auto split: if_splits)

lemma find_None_no_member: "find P xs = None \<Longrightarrow> x \<in> set xs \<Longrightarrow> \<not> P x"
  by (induction xs) (auto split: if_splits)

lemma filter_unique_key:
  "distinct (map f xs) \<Longrightarrow> x \<in> set xs \<Longrightarrow> filter (\<lambda>d. f d = f x) xs = [x]"
proof (induction xs)
  case Nil
  then show ?case by simp
next
  case (Cons y ys)
  show ?case
  proof (cases "x = y")
    case True
    have "\<forall>d\<in>set ys. f d \<noteq> f y"
    proof
      fix d assume "d \<in> set ys"
      then have "f d \<in> f ` set ys" by simp
      moreover have "f y \<notin> f ` set ys" using Cons.prems(1) by simp
      ultimately show "f d \<noteq> f y" by metis
    qed
    then have "filter (\<lambda>d. f d = f y) ys = []"
      by (simp add: filter_empty_conv)
    with True show ?thesis by simp
  next
    case False
    then have "x \<in> set ys" using Cons.prems(2) by simp
    moreover have "f y \<noteq> f x" using Cons.prems(1) \<open>x \<in> set ys\<close> by auto
    ultimately show ?thesis using Cons by simp
  qed
qed

lemma set_spec_dedup_subset: "set (spec_dedup cs) \<subseteq> set cs"
  by (induction cs rule: spec_dedup.induct) auto

lemma urls_spec_dedup: "direct_url ` set (spec_dedup cs) = direct_url ` set cs"
proof (induction cs rule: spec_dedup.induct)
  case 1
  show ?case by simp
next
  case (2 c cs)
  have "direct_url ` set (c # cs)
      = insert (direct_url c) (direct_url ` set (filter (\<lambda>d. direct_url d \<noteq> direct_url c) cs))"
    by auto
  with 2 show ?case by simp
qed

lemma distinct_spec_dedup: "distinct (map direct_url (spec_dedup cs))"
proof (induction cs rule: spec_dedup.induct)
  case 1
  show ?case by simp
next
  case (2 c cs)
  have "direct_url c \<notin> direct_url ` set (filter (\<lambda>d. direct_url d \<noteq> direct_url c) cs)"
    by force
  then have "direct_url c \<notin> direct_url ` set (spec_dedup (filter (\<lambda>d. direct_url d \<noteq> direct_url c) cs))"
    by (simp add: urls_spec_dedup)
  with 2 show ?case by simp
qed

lemma subseq_spec_dedup: "subseq (spec_dedup cs) cs"
proof (induction cs rule: spec_dedup.induct)
  case 1
  show ?case by simp
next
  case (2 c cs)
  have "subseq (filter (\<lambda>d. direct_url d \<noteq> direct_url c) cs) cs" by simp
  with 2 have "subseq (spec_dedup (filter (\<lambda>d. direct_url d \<noteq> direct_url c) cs)) cs"
    using subseq_order.order_trans by blast
  then show ?case by simp
qed

lemma spec_dedup_first:
  "c \<in> set (spec_dedup cs) \<Longrightarrow> find (\<lambda>d. direct_url d = direct_url c) cs = Some c"
proof (induction cs rule: spec_dedup.induct)
  case 1
  then show ?case by simp
next
  case (2 x xs)
  show ?case
  proof (cases "c = x")
    case True
    then show ?thesis by simp
  next
    case False
    let ?ys = "filter (\<lambda>d. direct_url d \<noteq> direct_url x) xs"
    from False 2(2) have m: "c \<in> set (spec_dedup ?ys)" by simp
    then have "c \<in> set ?ys" using set_spec_dedup_subset by blast
    then have ne: "direct_url c \<noteq> direct_url x" by simp
    have "find (\<lambda>d. direct_url d = direct_url c) ?ys = Some c"
      using 2(1) m by simp
    moreover have "find (\<lambda>d. direct_url d = direct_url c) ?ys
        = find (\<lambda>d. direct_url d = direct_url c) xs"
      using ne by (intro find_filter_stronger) auto
    ultimately show ?thesis using ne by simp
  qed
qed

lemma dedup_loop_spec:
  "\<forall>c\<in>set cs. direct_url c \<noteq> [] \<Longrightarrow>
   dedup_loop cs seen uniq = uniq @ spec_dedup (filter (\<lambda>c. direct_url c \<notin> seen) cs)"
proof (induction cs arbitrary: seen uniq)
  case Nil
  show ?case by simp
next
  case (Cons c cs)
  show ?case
  proof (cases "direct_url c \<in> seen")
    case True
    with Cons show ?thesis by simp
  next
    case False
    have f: "filter (\<lambda>d. direct_url d \<notin> insert (direct_url c) seen) cs
        = filter (\<lambda>d. direct_url d \<noteq> direct_url c) (filter (\<lambda>d. direct_url d \<notin> seen) cs)"
      by (induction cs) auto
    have "dedup_loop (c # cs) seen uniq = dedup_loop cs (insert (direct_url c) seen) (uniq @ [c])"
      using False Cons.prems by simp
    also have "\<dots> = (uniq @ [c])
        @ spec_dedup (filter (\<lambda>d. direct_url d \<notin> insert (direct_url c) seen) cs)"
      using Cons.prems by (intro Cons.IH) simp
    also have "\<dots> = uniq @ spec_dedup (filter (\<lambda>c. direct_url c \<notin> seen) (c # cs))"
      using False by (simp only: f filter.simps if_True not_False_eq_True append_assoc
          append_Cons append_Nil spec_dedup.simps)
    finally show ?thesis .
  qed
qed

lemma dedup_loop_is_spec_dedup:
  "\<forall>c\<in>set cs. direct_url c \<noteq> [] \<Longrightarrow> dedup_loop cs {} [] = spec_dedup cs"
  using dedup_loop_spec[of cs "{}" "[]"] by simp

section \<open>Properties of the pipeline\<close>

lemma perform_collects:
  assumes "ddgs_text W (enriched_query q et) mr w = (Inr results, w1)"
  shows "\<exists>A B w2 w3.
      direct_loop W (extensions_or_default pe) (map to_hit results) [] w1 = (Inr A, w2)
    \<and> page_loop W (extensions_or_default pe) (map to_hit results) A w2 = (Inr (A @ B), w3)
    \<and> map direct_url A = filter (\<lambda>u. is_direct_file_url u (extensions_or_default pe))
                            (map href (map to_hit results))
    \<and> (\<forall>c\<in>set A. reason c = Matched_by_extension)
    \<and> (\<forall>c\<in>set B. reason c = Found_on_page)
    \<and> ((\<forall>u w. probe_fails W u w) \<longrightarrow> (\<forall>c\<in>set (A @ B). content_type c = []))
    \<and> perform_search_and_extract W q et pe mr w = (Inr (spec_dedup (A @ B)), w3)"
proof -
  let ?exts = "extensions_or_default pe" and ?raw = "map to_hit results"
  obtain A w2 where a: "direct_loop W ?exts ?raw [] w1 = (Inr ([] @ A), w2)"
    "map direct_url A = filter (\<lambda>u. is_direct_file_url u ?exts) (map href ?raw)"
    "\<forall>c\<in>set A. reason c = Matched_by_extension \<and> source_page c = direct_url c"
    "(\<forall>u w. probe_fails W u w) \<longrightarrow> (\<forall>c\<in>set A. content_type c = [])"
    using direct_loop_adds[of W ?exts ?raw "[]" w1] by blast
  obtain B w3 where b: "page_loop W ?exts ?raw A w2 = (Inr (A @ B), w3)"
    "\<forall>c\<in>set B. reason c = Found_on_page \<and> is_direct_file_url (direct_url c) ?exts"
    "(\<forall>u w. probe_fails W u w) \<longrightarrow> (\<forall>c\<in>set B. content_type c = [])"
    using page_loop_adds[of W ?exts ?raw A w2] by blast
  have "\<forall>c\<in>set A. is_direct_file_url (direct_url c) ?exts"
  proof
    fix c assume "c \<in> set A"
    then have "direct_url c \<in> set (map direct_url A)" by simp
    then show "is_direct_file_url (direct_url c) ?exts" unfolding a(2) by simp
  qed
  then have ne: "\<forall>c\<in>set (A @ B). direct_url c \<noteq> []"
    using b(2) is_direct_nonempty by auto
  have "perform_search_and_extract W q et pe mr w = (Inr (dedup_loop (A @ B) {} []), w3)"
    using assms a(1) b(1)
    by (simp add: perform_search_and_extract_def search_web_def collect_candidates_def)
  then have "perform_search_and_extract W q et pe mr w = (Inr (spec_dedup (A @ B)), w3)"
    using dedup_loop_is_spec_dedup[OF ne] by simp
  moreover have "(\<forall>u w. probe_fails W u w) \<longrightarrow> (\<forall>c\<in>set (A @ B). content_type c = [])"
    using a(4) b(3) by auto
  ultimately show ?thesis using a b by auto
qed

text \<open>
  C1, as amended. When the search backend returns zero hits,
  \<open>perform_search_and_extract\<close> returns the empty candidate list. When the search
  backend raises, \<open>perform_search_and_extract\<close> raises the same exception: the call of
  \<open>_search_web\<close> has no handler, so an adapter failure is not treated as zero hits.
\<close>

theorem search_failure_propagates:
  "(ddgs_text W (enriched_query q et) mr w = (Inr [], w')
      \<longrightarrow> perform_search_and_extract W q et pe mr w = (Inr [], w'))
   \<and> (ddgs_text W (enriched_query q et) mr w = (Inl e, w')
      \<longrightarrow> perform_search_and_extract W q et pe mr w = (Inl e, w'))"
  by (simp add: perform_search_and_extract_def search_web_def collect_candidates_def)

text \<open>The amended C1 on a backend without hits and on a backend that times out.\<close>

theorem search_failure_propagates_witness:
  "perform_search_and_extract no_hits_web ''operating systems textbook'' None None 10 0
     = (Inr [], 1)
   \<and> perform_search_and_extract failing_search_web ''operating systems textbook'' None None 10 0
     = (Inl (Error ''search backend timeout''), 1)"
proof -
  have a: "ddgs_text no_hits_web (enriched_query ''operating systems textbook'' None) 10 0
             = (Inr [], 1)"
    by (simp add: no_hits_web_def example_web_def)
  have b: "ddgs_text failing_search_web (enriched_query ''operating systems textbook'' None) 10 0
             = (Inl (Error ''search backend timeout''), 1)"
    by (simp add: failing_search_web_def example_web_def)
  have c: "perform_search_and_extract no_hits_web ''operating systems textbook'' None None 10 0
     = (Inr [], 1)"
    using a search_failure_propagates[of no_hits_web "''operating systems textbook''" None 10 0 1]
    by blast
  have d: "perform_search_and_extract failing_search_web ''operating systems textbook'' None None 10 0
     = (Inl (Error ''search backend timeout''), 1)"
    using b search_failure_propagates[of failing_search_web "''operating systems textbook''" None 10 0 1]
    by blast
  show ?thesis using c d by simp
qed

text \<open>C1 as stated fails: the backend raises and the pipeline does not return the empty
  list, it raises.\<close>

theorem search_failure_counterexample:
  "fst (ddgs_text failing_search_web (enriched_query ''operating systems textbook'' None) 10 0)
     = Inl (Error ''search backend timeout'')
   \<and> fst (perform_search_and_extract failing_search_web ''operating systems textbook''
            None None 10 0) = Inl (Error ''search backend timeout'')
   \<and> fst (perform_search_and_extract failing_search_web ''operating systems textbook''
            None None 10 0) \<noteq> Inr []"
  by code_simp

text \<open>
  C2. Whenever the search backend answers, \<open>perform_search_and_extract\<close> returns the
  candidates \<open>A\<close> of loop 1 (all with reason "Matched by extension") followed by the
  candidates \<open>B\<close> of loop 2 (all with reason "Found on page"), deduplicated: the
  result has each \<open>direct_url\<close> at most once, has exactly the URLs of \<open>A @ B\<close>, is a
  subsequence of \<open>A @ B\<close> (relative order kept), and each candidate kept is the first
  one of \<open>A @ B\<close> with its URL. So for every URL of a direct hit exactly one candidate
  survives, and its reason is "Matched by extension".
\<close>

theorem pipeline_dedup_first_occurrence:
  assumes "ddgs_text W (enriched_query q et) mr w = (Inr results, w1)"
  shows "\<exists>A B out w2 w3.
      direct_loop W (extensions_or_default pe) (map to_hit results) [] w1 = (Inr A, w2)
    \<and> page_loop W (extensions_or_default pe) (map to_hit results) A w2 = (Inr (A @ B), w3)
    \<and> (\<forall>c\<in>set A. reason c = Matched_by_extension)
    \<and> (\<forall>c\<in>set B. reason c = Found_on_page)
    \<and> perform_search_and_extract W q et pe mr w = (Inr out, w3)
    \<and> out = spec_dedup (A @ B)
    \<and> distinct (map direct_url out)
    \<and> direct_url ` set out = direct_url ` set (A @ B)
    \<and> subseq out (A @ B)
    \<and> (\<forall>c\<in>set out. find (\<lambda>d. direct_url d = direct_url c) (A @ B) = Some c)
    \<and> (\<forall>a\<in>set A. \<exists>c. filter (\<lambda>d. direct_url d = direct_url a) out = [c]
                         \<and> reason c = Matched_by_extension)"
proof -
  obtain A B w2 w3 where p:
    "direct_loop W (extensions_or_default pe) (map to_hit results) [] w1 = (Inr A, w2)"
    "page_loop W (extensions_or_default pe) (map to_hit results) A w2 = (Inr (A @ B), w3)"
    "\<forall>c\<in>set A. reason c = Matched_by_extension"
    "\<forall>c\<in>set B. reason c = Found_on_page"
    "perform_search_and_extract W q et pe mr w = (Inr (spec_dedup (A @ B)), w3)"
    using perform_collects[OF assms, of pe] by blast
  define out where "out = spec_dedup (A @ B)"
  have d: "distinct (map direct_url out)"
    unfolding out_def by (rule distinct_spec_dedup)
  have u: "direct_url ` set out = direct_url ` set (A @ B)"
    unfolding out_def by (rule urls_spec_dedup)
  have s: "subseq out (A @ B)"
    unfolding out_def by (rule subseq_spec_dedup)
  have f: "\<forall>c\<in>set out. find (\<lambda>d. direct_url d = direct_url c) (A @ B) = Some c"
    unfolding out_def using spec_dedup_first by blast
  have m: "\<forall>a\<in>set A. \<exists>c. filter (\<lambda>d. direct_url d = direct_url a) out = [c]
                         \<and> reason c = Matched_by_extension"
  proof
    fix a assume a: "a \<in> set A"
    then have "direct_url a \<in> direct_url ` set out" using u by auto
    then obtain c where c: "c \<in> set out" "direct_url c = direct_url a" by auto
    have one: "filter (\<lambda>d. direct_url d = direct_url a) out = [c]"
      using filter_unique_key[OF d c(1)] c(2) by simp
    have "find (\<lambda>d. direct_url d = direct_url a) (A @ B) = Some c"
      using f c by auto
    moreover obtain x where "find (\<lambda>d. direct_url d = direct_url a) A = Some x"
      using a find_None_no_member[of "\<lambda>d. direct_url d = direct_url a" A a] by fastforce
    ultimately have "find (\<lambda>d. direct_url d = direct_url a) A = Some c"
      by (simp add: find_append_first)
    then have "c \<in> set A" using find_Some_member by fastforce
    then have "reason c = Matched_by_extension" using p(3) by simp
    with one show "\<exists>c. filter (\<lambda>d. direct_url d = direct_url a) out = [c]
                         \<and> reason c = Matched_by_extension" by blast
  qed
  show ?thesis
    using p(1) p(2) p(3) p(4) p(5) d u s f m unfolding out_def by blast
qed

text \<open>The search of the example web.\<close>

lemma example_search:
  "ddgs_text example_web (enriched_query ''operating systems textbook'' None) 10 0
     = (Inr [\<lparr>r_title = Some ''OS textbook'', r_href = Some ''https://example.edu/os.pdf'',
               r_body = Some ''PDF''\<rparr>,
             \<lparr>r_title = Some ''Course'', r_href = Some ''https://example.edu/course'',
               r_body = None\<rparr>], 1)"
  by (simp add: example_web_def)

text \<open>C2 on the example web: \<open>os.pdf\<close> is a direct hit and is found again on the
  course page; it is returned once, as a direct hit.\<close>

theorem pipeline_dedup_first_occurrence_witness:
  "perform_search_and_extract example_web ''operating systems textbook'' None None 10 0
     = (Inr example_candidates, 7)
   \<and> distinct (map direct_url example_candidates)
   \<and> map reason example_candidates = [Matched_by_extension, Found_on_page, Found_on_page]"
proof -
  have e: "perform_search_and_extract example_web ''operating systems textbook'' None None 10 0
     = (Inr example_candidates, 7)"
    by code_simp
  obtain out w3 where o:
    "perform_search_and_extract example_web ''operating systems textbook'' None None 10 0
       = (Inr out, w3)" "distinct (map direct_url out)"
    using pipeline_dedup_first_occurrence[OF example_search, of None] by blast
  have "out = example_candidates" using e o(1) by simp
  then have "distinct (map direct_url example_candidates)" using o(2) by simp
  moreover have "map reason example_candidates
      = [Matched_by_extension, Found_on_page, Found_on_page]"
    by (simp add: example_candidates_def)
  ultimately show ?thesis using e by simp
qed

text \<open>
  C8. \<open>_head_content_type\<close> never raises and returns \<open>None\<close> when the HEAD request
  raises or the response has no \<open>Content-Type\<close> header. A search hit, or an extracted
  link, that passes the classifier and whose probe fails is appended as a candidate
  with \<open>content_type\<close> the empty string. Whatever the probes answer, the URLs the two
  loops append are exactly the hits, or links, that pass the classifier, and the
  pipeline returns every hit that passes the classifier. When every probe fails, every
  returned candidate has the empty \<open>content_type\<close>.
\<close>

theorem probe_failure_keeps_candidates:
  "(\<exists>v w'. head_content_type W u w = (Inr v, w') \<and> (probe_fails W u w \<longrightarrow> v = None))
   \<and> (is_direct_file_url (href r) exts \<and> probe_fails W (href r) w \<longrightarrow>
        (\<exists>w'. direct_loop W exts [r] acc w
           = (Inr (acc @ [\<lparr>title = hit_title r, source_page = href r, direct_url = href r,
                            reason = Matched_by_extension, content_type = []\<rparr>]), w')))
   \<and> (is_direct_file_url link exts \<and> probe_fails W link w \<longrightarrow>
        (\<exists>w'. link_loop W exts r page_url [link] acc w
           = (Inr (acc @ [\<lparr>title = hit_title r, source_page = page_url, direct_url = link,
                            reason = Found_on_page, content_type = []\<rparr>]), w')))
   \<and> (\<exists>new w'. direct_loop W exts raw acc w = (Inr (acc @ new), w')
        \<and> map direct_url new = filter (\<lambda>u. is_direct_file_url u exts) (map href raw))
   \<and> (\<exists>new w'. link_loop W exts r page_url links acc w = (Inr (acc @ new), w')
        \<and> map direct_url new = filter (\<lambda>u. is_direct_file_url u exts) links)
   \<and> (ddgs_text W (enriched_query q et) mr w = (Inr results, w1)
       \<longrightarrow> (\<exists>out w'. perform_search_and_extract W q et pe mr w = (Inr out, w')
              \<and> (\<forall>h\<in>set results.
                    is_direct_file_url (href (to_hit h)) (extensions_or_default pe)
                    \<longrightarrow> href (to_hit h) \<in> direct_url ` set out)
              \<and> ((\<forall>u w. probe_fails W u w) \<longrightarrow> (\<forall>c\<in>set out. content_type c = []))))"
proof (intro conjI)
  show "\<exists>v w'. head_content_type W u w = (Inr v, w') \<and> (probe_fails W u w \<longrightarrow> v = None)"
    using head_content_type_total[of W u w] head_content_type_fails[of W u w] by auto
  show "is_direct_file_url (href r) exts \<and> probe_fails W (href r) w \<longrightarrow>
        (\<exists>w'. direct_loop W exts [r] acc w
           = (Inr (acc @ [\<lparr>title = hit_title r, source_page = href r, direct_url = href r,
                            reason = Matched_by_extension, content_type = []\<rparr>]), w'))"
    using head_content_type_fails[of W "href r" w] by (auto simp: py_or_def)
  show "is_direct_file_url link exts \<and> probe_fails W link w \<longrightarrow>
        (\<exists>w'. link_loop W exts r page_url [link] acc w
           = (Inr (acc @ [\<lparr>title = hit_title r, source_page = page_url, direct_url = link,
                            reason = Found_on_page, content_type = []\<rparr>]), w'))"
    using head_content_type_fails[of W link w] by (auto simp: py_or_def)
  show "\<exists>new w'. direct_loop W exts raw acc w = (Inr (acc @ new), w')
        \<and> map direct_url new = filter (\<lambda>u. is_direct_file_url u exts) (map href raw)"
    using direct_loop_adds[of W exts raw acc w] by blast
  show "\<exists>new w'. link_loop W exts r page_url links acc w = (Inr (acc @ new), w')
        \<and> map direct_url new = filter (\<lambda>u. is_direct_file_url u exts) links"
    using link_loop_adds[of W exts r page_url links acc w] by blast
  show "ddgs_text W (enriched_query q et) mr w = (Inr results, w1)
       \<longrightarrow> (\<exists>out w'. perform_search_and_extract W q et pe mr w = (Inr out, w')
              \<and> (\<forall>h\<in>set results.
                    is_direct_file_url (href (to_hit h)) (extensions_or_default pe)
                    \<longrightarrow> href (to_hit h) \<in> direct_url ` set out)
              \<and> ((\<forall>u w. probe_fails W u w) \<longrightarrow> (\<forall>c\<in>set out. content_type c = [])))"
  proof
    assume a: "ddgs_text W (enriched_query q et) mr w = (Inr results, w1)"
    then obtain A B w2 w3 where p:
      "map direct_url A = filter (\<lambda>u. is_direct_file_url u (extensions_or_default pe))
                            (map href (map to_hit results))"
      "(\<forall>u w. probe_fails W u w) \<longrightarrow> (\<forall>c\<in>set (A @ B). content_type c = [])"
      "perform_search_and_extract W q et pe mr w = (Inr (spec_dedup (A @ B)), w3)"
      using perform_collects[of W q et mr w results w1 pe] by blast
    have c: "(\<forall>u w. probe_fails W u w)
             \<longrightarrow> (\<forall>c\<in>set (spec_dedup (A @ B)). content_type c = [])"
      using p(2) set_spec_dedup_subset[of "A @ B"] by blast
    have "\<forall>h\<in>set results.
            is_direct_file_url (href (to_hit h)) (extensions_or_default pe)
            \<longrightarrow> href (to_hit h) \<in> direct_url ` set (spec_dedup (A @ B))"
    proof (intro ballI impI)
      fix h assume "h \<in> set results"
        and "is_direct_file_url (href (to_hit h)) (extensions_or_default pe)"
      then have "href (to_hit h) \<in> set (map direct_url A)"
        unfolding p(1) by auto
      then have "href (to_hit h) \<in> direct_url ` set (A @ B)" by auto
      then show "href (to_hit h) \<in> direct_url ` set (spec_dedup (A @ B))"
        by (simp only: urls_spec_dedup)
    qed
    with c p(3) show "\<exists>out w'. perform_search_and_extract W q et pe mr w = (Inr out, w')
              \<and> (\<forall>h\<in>set results.
                    is_direct_file_url (href (to_hit h)) (extensions_or_default pe)
                    \<longrightarrow> href (to_hit h) \<in> direct_url ` set out)
              \<and> ((\<forall>u w. probe_fails W u w) \<longrightarrow> (\<forall>c\<in>set out. content_type c = []))"
      by blast
  qed
qed

lemma no_probe_search:
  "ddgs_text no_probe_web (enriched_query ''operating systems textbook'' None) 10 0
     = (Inr [\<lparr>r_title = Some ''OS textbook'', r_href = Some ''https://example.edu/os.pdf'',
               r_body = Some ''PDF''\<rparr>,
             \<lparr>r_title = Some ''Course'', r_href = Some ''https://example.edu/course'',
               r_body = None\<rparr>], 1)"
  by (simp add: example_web_def no_probe_web_def)

lemma no_probe_fails: "\<forall>u w. probe_fails no_probe_web u w"
  by (simp add: probe_fails_def no_probe_web_def)

text \<open>C8 on the example web with probes that always time out: the same three
  candidates are returned, each with the empty content type.\<close>

theorem probe_failure_keeps_candidates_witness:
  "head_content_type no_probe_web ''https://example.edu/os.pdf'' 0 = (Inr None, 1)
   \<and> perform_search_and_extract no_probe_web ''operating systems textbook'' None None 10 0
       = (Inr no_probe_candidates, 7)
   \<and> map content_type no_probe_candidates = [[], [], []]
   \<and> ''https://example.edu/os.pdf'' \<in> direct_url ` set no_probe_candidates"
proof -
  let ?r = "\<lparr>r_title = Some ''OS textbook'', r_href = Some ''https://example.edu/os.pdf'',
               r_body = Some ''PDF''\<rparr>"
  let ?rs = "[?r, \<lparr>r_title = Some ''Course'', r_href = Some ''https://example.edu/course'',
               r_body = None\<rparr>]"
  note t = probe_failure_keeps_candidates[where W = no_probe_web and w = 0
      and u = "''https://example.edu/os.pdf''" and q = "''operating systems textbook''"
      and et = None and mr = 10 and results = ?rs and ?w1.0 = 1 and pe = None]
  have e: "perform_search_and_extract no_probe_web ''operating systems textbook'' None None 10 0
     = (Inr no_probe_candidates, 7)"
    by code_simp
  have d: "is_direct_file_url (href (to_hit ?r)) (extensions_or_default None)"
    by code_simp
  have hr: "href (to_hit ?r) = ''https://example.edu/os.pdf''"
    by (simp add: to_hit_def get_or_def)
  have pf: "probe_fails no_probe_web ''https://example.edu/os.pdf'' 0"
    using no_probe_fails by blast
  obtain v w' where v: "head_content_type no_probe_web ''https://example.edu/os.pdf'' 0 = (Inr v, w')"
      "probe_fails no_probe_web ''https://example.edu/os.pdf'' 0 \<longrightarrow> v = None"
    using t[THEN conjunct1] by blast
  have "head_content_type no_probe_web ''https://example.edu/os.pdf'' 0 = (Inr None, 1)"
    by code_simp
  then have h1: "head_content_type no_probe_web ''https://example.edu/os.pdf'' 0 = (Inr None, 1)"
    using v pf by simp
  have "\<exists>out w'. perform_search_and_extract no_probe_web ''operating systems textbook''
                     None None 10 0 = (Inr out, w')
           \<and> (\<forall>h\<in>set ?rs. is_direct_file_url (href (to_hit h)) (extensions_or_default None)
                    \<longrightarrow> href (to_hit h) \<in> direct_url ` set out)
           \<and> (\<forall>c\<in>set out. content_type c = [])"
    using t[THEN conjunct2, THEN conjunct2, THEN conjunct2, THEN conjunct2, THEN conjunct2]
      no_probe_fails no_probe_search by blast
  then obtain out w'' where o:
    "perform_search_and_extract no_probe_web ''operating systems textbook'' None None 10 0
       = (Inr out, w'')"
    "\<forall>h\<in>set ?rs. is_direct_file_url (href (to_hit h)) (extensions_or_default None)
                    \<longrightarrow> href (to_hit h) \<in> direct_url ` set out"
    "\<forall>c\<in>set out. content_type c = []"
    by blast
  have eq: "out = no_probe_candidates" using e o(1) by simp
  have m: "href (to_hit ?r) \<in> direct_url ` set out"
    using o(2) d by simp
  have "map content_type no_probe_candidates = [[], [], []]"
    by (simp add: no_probe_candidates_def example_candidates_def)
  then show ?thesis using h1 e m hr eq by simp
qed

section \<open>Properties of the download proxy\<close>

text \<open>
  C5: the disposition name is the last path segment of the URL with any query string
  removed. The code takes the text after the last slash of the whole URL and only then
  cuts the query string off, so a slash inside the query string changes the name: for
  \<open>https://host/path/report.pdf?x=a/b\<close> it is \<open>b\<close>, while the last path segment is
  \<open>report.pdf\<close>. On the specification's own example the two agree.
\<close>

theorem disposition_name_query_slash:
  "disposition_name ''https://host/path/report.pdf?x=a/b'' = ''b''
   \<and> spec_disposition_name ''https://host/path/report.pdf?x=a/b'' = ''report.pdf''
   \<and> disposition_name ''https://host/path/report.pdf?x=1'' = ''report.pdf''
   \<and> spec_disposition_name ''https://host/path/report.pdf?x=1'' = ''report.pdf''"
  by code_simp

text \<open>
  C4. A URL that starts neither with \<open>http://\<close> nor with \<open>https://\<close> makes
  \<open>stream_file_download\<close> raise \<open>HTTPException(400)\<close> with nothing done: no session,
  no request. When the HEAD request answers with a status of 400 or more, it raises
  \<open>HTTPException\<close> with exactly that status; the session has been created, the HEAD
  request made and the session closed, and no GET request is ever made, whatever the
  caller does.
\<close>

theorem stream_file_download_failures:
  "(\<not> (startswith url ''http://'' \<or> startswith url ''https://'') \<longrightarrow>
      stream_file_download U url = (Inl (Exc (HTTPException 400 Invalid_URL_scheme)), [])
      \<and> download U url c = (Inl (Exc (HTTPException 400 Invalid_URL_scheme)), []))
   \<and> ((startswith url ''http://'' \<or> startswith url ''https://'')
        \<and> session_head U url = Inr head_resp \<and> head_status head_resp \<ge> 400 \<longrightarrow>
      stream_file_download U url
        = (Inl (Exc (HTTPException (head_status head_resp)
                       (Upstream_status (head_status head_resp)))),
           [Session_created, Head_request url, Session_closed])
      \<and> download U url c
        = (Inl (Exc (HTTPException (head_status head_resp)
                       (Upstream_status (head_status head_resp)))),
           [Session_created, Head_request url, Session_closed]))"
  by (auto simp: stream_file_download_def stream_file_download_try_def download_def)

text \<open>C4 on an \<open>ftp\<close> URL and on a file the upstream reports missing.\<close>

theorem stream_file_download_failures_witness:
  "stream_file_download example_upstream ''ftp://x/file.pdf''
     = (Inl (Exc (HTTPException 400 Invalid_URL_scheme)), [])
   \<and> download example_upstream ''https://host/missing.pdf'' Consume_all
     = (Inl (Exc (HTTPException 404 (Upstream_status 404))),
        [Session_created, Head_request ''https://host/missing.pdf'', Session_closed])"
proof -
  have a: "\<not> (startswith ''ftp://x/file.pdf'' ''http://''
               \<or> startswith ''ftp://x/file.pdf'' ''https://'')"
    by code_simp
  have b: "startswith ''https://host/missing.pdf'' ''http://''
           \<or> startswith ''https://host/missing.pdf'' ''https://''"
    by code_simp
  have h: "session_head example_upstream ''https://host/missing.pdf''
             = Inr \<lparr>head_status = 404, head_content_type_header = None\<rparr>"
    by (simp add: example_upstream_def)
  have s: "head_status \<lparr>head_status = 404, head_content_type_header = None\<rparr> \<ge> 400"
    by simp
  have w1: "stream_file_download example_upstream ''ftp://x/file.pdf''
     = (Inl (Exc (HTTPException 400 Invalid_URL_scheme)), [])"
    using a stream_file_download_failures[of "''ftp://x/file.pdf''" example_upstream]
    by blast
  have w2: "download example_upstream ''https://host/missing.pdf'' Consume_all
     = (Inl (Exc (HTTPException
                   (head_status \<lparr>head_status = 404, head_content_type_header = None\<rparr>)
                   (Upstream_status
                     (head_status \<lparr>head_status = 404, head_content_type_header = None\<rparr>)))),
        [Session_created, Head_request ''https://host/missing.pdf'', Session_closed])"
    using b h s stream_file_download_failures[of "''https://host/missing.pdf''" example_upstream
        Consume_all "\<lparr>head_status = 404, head_content_type_header = None\<rparr>"]
    by blast
  show ?thesis using w1 w2 by simp
qed

text \<open>The events of the streaming phase.\<close>

lemma read_loop_events: "set (snd (snd (read_loop b c))) \<subseteq> {Body_read}"
  by (induction b c rule: read_loop.induct)
     (auto split: consumer.splits prod.splits if_splits)

lemma read_loop_all:
  "[] \<notin> set chunks \<Longrightarrow> \<exists>evs. read_loop (map Inr chunks) Consume_all = (chunks, Exhausted, evs)"
  by (induction chunks) auto

lemma stream_content_events:
  "set (snd (snd (stream_content U url c))) \<subseteq> {Get_request url, Body_read}"
proof (cases "session_get U url")
  case (Inl e)
  then show ?thesis by (simp add: stream_content_def)
next
  case (Inr r)
  obtain cs out evs where rl: "read_loop (get_body r) c = (cs, out, evs)"
    by (metis prod_cases3)
  have "set evs \<subseteq> {Body_read}"
    using read_loop_events[of "get_body r" c] rl by simp
  then show ?thesis
    using Inr rl by (auto simp: stream_content_def)
qed

lemma iterator_events:
  assumes "c \<noteq> Close_after 0"
  shows "\<exists>evs. snd (snd (iterator U it c)) = evs @ [Session_closed]
               \<and> set evs \<subseteq> {Get_request (iterator_url it), Body_read}"
proof -
  obtain cs out evs where sc: "stream_content U (iterator_url it) c = (cs, out, evs)"
    by (metis prod_cases3)
  have "set evs \<subseteq> {Get_request (iterator_url it), Body_read}"
    using stream_content_events[of U "iterator_url it" c] sc by simp
  then show ?thesis
    using assms sc by (simp add: iterator_def)
qed

lemma stream_file_download_try_events:
  "snd (stream_file_download_try U url) = [Head_request url]"
  by (simp add: stream_file_download_try_def Let_def split: sum.splits)

lemma stream_file_download_try_body:
  "stream_file_download_try U url = (Inr resp, evs) \<Longrightarrow> body resp = Iterator url"
  by (auto simp: stream_file_download_try_def StreamingResponse_def Let_def
      split: sum.splits if_splits)

lemma stream_file_download_try_cancelled:
  "stream_file_download_try U url = (Inl CancelledError, evs)
     \<Longrightarrow> session_head U url = Inl CancelledError"
  by (auto simp: stream_file_download_try_def Let_def split: sum.splits if_splits)

text \<open>Where the session is closed: every run of a valid URL whose probe is not
  cancelled and whose iterator, if one is returned, is started.\<close>

lemma download_events:
  assumes "startswith url ''http://'' \<or> startswith url ''https://''"
    and "session_head U url \<noteq> Inl CancelledError"
    and "c \<noteq> Close_after 0"
  shows "\<exists>evs. snd (download U url c) = Session_created # evs @ [Session_closed]
               \<and> set evs \<subseteq> {Head_request url, Get_request url, Body_read}"
proof -
  obtain r evs0 where t: "stream_file_download_try U url = (r, evs0)"
    by (metis surj_pair)
  have e0: "evs0 = [Head_request url]"
    using stream_file_download_try_events[of U url] t by simp
  show ?thesis
  proof (cases r)
    case (Inl x)
    then obtain e where "x = Exc e"
      using assms(2) t stream_file_download_try_cancelled[of U url evs0]
      by (cases x) auto
    then have "snd (download U url c) = Session_created # [Head_request url] @ [Session_closed]"
      using assms(1) t e0 Inl by (simp add: download_def stream_file_download_def)
    then show ?thesis by auto
  next
    case (Inr resp)
    have b: "body resp = Iterator url"
      using stream_file_download_try_body t Inr by blast
    obtain evs1 where i: "snd (snd (iterator U (Iterator url) c)) = evs1 @ [Session_closed]"
        "set evs1 \<subseteq> {Get_request url, Body_read}"
      using iterator_events[OF assms(3), of U "Iterator url"] by auto
    have "snd (download U url c)
        = Session_created # (Head_request url # evs1) @ [Session_closed]"
      using assms(1) t e0 Inr b i(1)
      by (auto simp: download_def stream_file_download_def split: prod.splits)
    moreover have "set (Head_request url # evs1)
        \<subseteq> {Head_request url, Get_request url, Body_read}"
      using i(2) by auto
    ultimately show ?thesis by blast
  qed
qed

lemma session_closed_on_other_paths:
  assumes "startswith url ''http://'' \<or> startswith url ''https://''"
    and "session_head U url \<noteq> Inl CancelledError"
    and "c \<noteq> Close_after 0"
  shows "count_list (snd (download U url c)) Session_created = 1
      \<and> count_list (snd (download U url c)) Session_closed = 1
      \<and> hd (snd (download U url c)) = Session_created
      \<and> last (snd (download U url c)) = Session_closed"
proof -
  obtain evs where e: "snd (download U url c) = Session_created # evs @ [Session_closed]"
      "set evs \<subseteq> {Head_request url, Get_request url, Body_read}"
    using download_events[OF assms] by blast
  have n: "count_list evs Session_created = 0" "count_list evs Session_closed = 0"
    using e(2) by (auto simp: count_list_0_iff)
  show ?thesis using n by (simp add: e(1))
qed

text \<open>Where it is not: a probe cancelled at its \<open>await\<close>, and a response whose
  iterator is closed before its first step.\<close>

lemma session_open_after_cancelled_probe:
  assumes "startswith url ''http://'' \<or> startswith url ''https://''"
    and "session_head U url = Inl CancelledError"
  shows "download U url c = (Inl CancelledError, [Session_created, Head_request url])"
  using assms
  by (simp add: download_def stream_file_download_def stream_file_download_try_def)

lemma session_open_after_unstarted_iterator:
  assumes "stream_file_download U url = (Inr resp, evs)"
  shows "snd (download U url (Close_after 0)) = evs \<and> Session_closed \<notin> set evs"
proof -
  have "snd (download U url (Close_after 0)) = evs"
    using assms by (simp add: download_def iterator_def)
  moreover have "evs = [Session_created, Head_request url]"
    using assms stream_file_download_try_events[of U url]
    by (auto simp: stream_file_download_def split: if_splits prod.splits sum.splits raised.splits)
  ultimately show ?thesis by simp
qed

text \<open>
  C9: the session is released exactly once on every exit path. The code closes it in
  \<open>except Exception\<close> and in the \<open>finally\<close> of the iterator, and misses two paths. A
  request cancelled while the HEAD request is awaited raises \<open>CancelledError\<close>, which
  \<open>except Exception\<close> does not catch: the session stays open. A response whose
  iterator is closed before its first step never reaches the \<open>finally\<close>: the session
  stays open.
\<close>

theorem session_left_open:
  "stream_file_download cancelled_probe_upstream ''https://host/path/report.pdf?x=1''
     = (Inl CancelledError,
        [Session_created, Head_request ''https://host/path/report.pdf?x=1''])
   \<and> snd (download example_upstream ''https://host/path/report.pdf?x=1'' (Close_after 0))
     = [Session_created, Head_request ''https://host/path/report.pdf?x=1'']
   \<and> count_list (snd (download cancelled_probe_upstream
                          ''https://host/path/report.pdf?x=1'' Consume_all)) Session_closed = 0
   \<and> count_list (snd (download example_upstream
                          ''https://host/path/report.pdf?x=1'' (Close_after 0))) Session_closed = 0"
  by code_simp

text \<open>Three runs of the example upstream in full.\<close>

lemma example_download_traces:
  "download example_upstream ''https://host/broken.bin'' Consume_all
     = (Inr (\<lparr>media_type = ''application/octet-stream'',
               headers = [(''Content-Disposition'',
                           ''attachment; filename='' @ [CHR 0x22] @ ''broken.bin'' @ [CHR 0x22])],
               body = Iterator ''https://host/broken.bin''\<rparr>,
             [''chunk one''], Raised (Exc (Error ''connection reset''))),
        [Session_created, Head_request ''https://host/broken.bin'',
         Get_request ''https://host/broken.bin'', Body_read, Body_read, Session_closed])"
  "snd (download example_upstream ''https://host/path/report.pdf?x=1'' (Close_after 1))
     = [Session_created, Head_request ''https://host/path/report.pdf?x=1'',
        Get_request ''https://host/path/report.pdf?x=1'', Body_read, Session_closed]"
  "snd (download example_upstream ''https://host/gone.bin'' Consume_all)
     = [Session_created, Head_request ''https://host/gone.bin'',
        Get_request ''https://host/gone.bin'', Session_closed]"
  by code_simp+

lemma negotiated_default: "negotiated_content_type None = ''application/octet-stream''"
  by code_simp

lemma media_type_or_default_eq:
  "media_type_or_default header
     = (if negotiated_content_type header = [] then ''application/octet-stream''
        else negotiated_content_type header)"
  by (simp add: media_type_or_default_def py_or_def)

lemma disposition_headers_encodable:
  "list_all (\<lambda>(k, v). latin1_encodable k \<and> latin1_encodable v) (disposition_headers name)
     = latin1_encodable name"
  by (simp add: disposition_headers_def latin1_encodable_def)

text \<open>
  C10, as amended. For a valid URL whose probe answers with a status below 400, the
  media type handed to the response is the declared \<open>Content-Type\<close>, parameters stripped
  and lowercased, or \<open>application/octet-stream\<close> when that is empty or no type is
  declared. When this media type and the disposition name can be encoded as Latin-1,
  \<open>stream_file_download\<close> returns a streaming response with that media type, whatever
  it is: membership in \<open>SAFE_CONTENT_TYPES\<close> plays no part, a media type outside it is
  returned all the same; running the iterator makes the GET request, and a body of
  non-empty chunks is handed over whole. When one of the two cannot be encoded as
  Latin-1, building the response raises \<open>UnicodeEncodeError\<close>, the session is closed and
  nothing is streamed.
\<close>

theorem media_type_not_allowlisted:
  assumes "startswith url ''http://'' \<or> startswith url ''https://''"
    and "session_head U url = Inr head_resp"
    and "head_status head_resp < 400"
  shows "media_type_or_default (head_content_type_header head_resp)
         = (if negotiated_content_type (head_content_type_header head_resp) = []
            then ''application/octet-stream''
            else negotiated_content_type (head_content_type_header head_resp))
     \<and> (head_content_type_header head_resp = None
          \<longrightarrow> media_type_or_default (head_content_type_header head_resp)
                = ''application/octet-stream'')
     \<and> (latin1_encodable (media_type_or_default (head_content_type_header head_resp))
          \<and> latin1_encodable (disposition_name url) \<longrightarrow>
          (\<exists>resp. stream_file_download U url = (Inr resp, [Session_created, Head_request url])
             \<and> media_type resp = media_type_or_default (head_content_type_header head_resp)
             \<and> (media_type resp \<notin> SAFE_CONTENT_TYPES
                  \<longrightarrow> fst (stream_file_download U url) = Inr resp)
             \<and> body resp = Iterator url
             \<and> (c \<noteq> Close_after 0 \<longrightarrow>
                  (\<exists>chunks out evs.
                     iterator U (body resp) c = (chunks, out, Get_request url # evs)))
             \<and> (\<forall>get_resp chunks.
                  session_get U url = Inr get_resp \<and> get_status get_resp < 400
                  \<and> get_body get_resp = map Inr chunks \<and> [] \<notin> set chunks
                  \<longrightarrow> fst (iterator U (body resp) Consume_all) = chunks)))
     \<and> (\<not> (latin1_encodable (media_type_or_default (head_content_type_header head_resp))
             \<and> latin1_encodable (disposition_name url)) \<longrightarrow>
          stream_file_download U url
            = (Inl (Exc (Error ''UnicodeEncodeError'')),
               [Session_created, Head_request url, Session_closed]))"
proof (intro conjI impI)
  let ?mt = "media_type_or_default (head_content_type_header head_resp)"
  show "?mt = (if negotiated_content_type (head_content_type_header head_resp) = []
            then ''application/octet-stream''
            else negotiated_content_type (head_content_type_header head_resp))"
    by (rule media_type_or_default_eq)
  show "?mt = ''application/octet-stream''" if "head_content_type_header head_resp = None"
    using that by (simp add: media_type_or_default_eq negotiated_default)
  show "stream_file_download U url
            = (Inl (Exc (Error ''UnicodeEncodeError'')),
               [Session_created, Head_request url, Session_closed])"
    if "\<not> (latin1_encodable ?mt \<and> latin1_encodable (disposition_name url))"
    using that assms
    by (auto simp: stream_file_download_def stream_file_download_try_def StreamingResponse_def
        disposition_headers_encodable)
  show "\<exists>resp. stream_file_download U url = (Inr resp, [Session_created, Head_request url])
             \<and> media_type resp = ?mt
             \<and> (media_type resp \<notin> SAFE_CONTENT_TYPES
                  \<longrightarrow> fst (stream_file_download U url) = Inr resp)
             \<and> body resp = Iterator url
             \<and> (c \<noteq> Close_after 0 \<longrightarrow>
                  (\<exists>chunks out evs.
                     iterator U (body resp) c = (chunks, out, Get_request url # evs)))
             \<and> (\<forall>get_resp chunks.
                  session_get U url = Inr get_resp \<and> get_status get_resp < 400
                  \<and> get_body get_resp = map Inr chunks \<and> [] \<notin> set chunks
                  \<longrightarrow> fst (iterator U (body resp) Consume_all) = chunks)"
    if enc: "latin1_encodable ?mt \<and> latin1_encodable (disposition_name url)"
  proof -
    define resp where "resp = \<lparr>media_type = ?mt,
        headers = disposition_headers (disposition_name url), body = Iterator url\<rparr>"
    have r: "stream_file_download U url = (Inr resp, [Session_created, Head_request url])"
      using assms enc
      by (simp add: stream_file_download_def stream_file_download_try_def StreamingResponse_def
          disposition_headers_encodable resp_def)
    have m: "media_type resp = ?mt" by (simp add: resp_def)
    have b: "body resp = Iterator url" by (simp add: resp_def)
    have g: "c \<noteq> Close_after 0 \<longrightarrow>
          (\<exists>chunks out evs. iterator U (body resp) c = (chunks, out, Get_request url # evs))"
      by (auto simp: b iterator_def stream_content_def split: sum.splits prod.splits)
    have a: "\<forall>get_resp chunks.
          session_get U url = Inr get_resp \<and> get_status get_resp < 400
          \<and> get_body get_resp = map Inr chunks \<and> [] \<notin> set chunks
          \<longrightarrow> fst (iterator U (body resp) Consume_all) = chunks"
    proof (intro allI impI)
      fix get_resp chunks
      assume h: "session_get U url = Inr get_resp \<and> get_status get_resp < 400
          \<and> get_body get_resp = map Inr chunks \<and> [] \<notin> set chunks"
      then obtain evs where "read_loop (get_body get_resp) Consume_all = (chunks, Exhausted, evs)"
        using read_loop_all[of chunks] by auto
      then show "fst (iterator U (body resp) Consume_all) = chunks"
        using h by (simp add: b iterator_def stream_content_def)
    qed
    show ?thesis using r m b g a by auto
  qed
qed

text \<open>The amended C10 on a file served as \<open>text/html\<close>, which is not in
  \<open>SAFE_CONTENT_TYPES\<close>, and on the file with the Cyrillic name.\<close>

theorem media_type_not_allowlisted_witness:
  "''text/html'' \<notin> SAFE_CONTENT_TYPES
   \<and> (\<exists>resp. stream_file_download example_upstream ''https://host/path/report.pdf?x=1''
              = (Inr resp, [Session_created, Head_request ''https://host/path/report.pdf?x=1''])
            \<and> media_type resp = ''text/html''
            \<and> fst (iterator example_upstream (body resp) Consume_all)
                = [''chunk one'', ''chunk two''])
   \<and> stream_file_download example_upstream (''https://host/'' @ cyrillic_name)
       = (Inl (Exc (Error ''UnicodeEncodeError'')),
          [Session_created, Head_request (''https://host/'' @ cyrillic_name), Session_closed])"
proof -
  let ?url = "''https://host/path/report.pdf?x=1''"
  let ?h = "\<lparr>head_status = 200, head_content_type_header = Some ''Text/HTML; charset=utf-8''\<rparr>"
  let ?g = "\<lparr>get_status = 200, get_body = [Inr ''chunk one'', Inr ''chunk two'']\<rparr>"
  have v: "startswith ?url ''http://'' \<or> startswith ?url ''https://''" by code_simp
  have h: "session_head example_upstream ?url = Inr ?h" by (simp add: example_upstream_def)
  have s: "head_status ?h < 400" by simp
  have n: "media_type_or_default (head_content_type_header ?h) = ''text/html''" by code_simp
  have enc: "latin1_encodable (media_type_or_default (head_content_type_header ?h))
             \<and> latin1_encodable (disposition_name ?url)"
    by code_simp
  have g: "session_get example_upstream ?url = Inr ?g \<and> get_status ?g < 400
           \<and> get_body ?g = map Inr [''chunk one'', ''chunk two'']
           \<and> [] \<notin> set [''chunk one'', ''chunk two'']"
    by (simp add: example_upstream_def)
  have u: "''text/html'' \<notin> SAFE_CONTENT_TYPES" by (simp add: SAFE_CONTENT_TYPES_def)
  note t = media_type_not_allowlisted[OF v h s, of Consume_all]
  obtain resp where r:
    "stream_file_download example_upstream ?url = (Inr resp, [Session_created, Head_request ?url])"
    "media_type resp = media_type_or_default (head_content_type_header ?h)"
    "\<forall>get_resp chunks.
          session_get example_upstream ?url = Inr get_resp \<and> get_status get_resp < 400
          \<and> get_body get_resp = map Inr chunks \<and> [] \<notin> set chunks
          \<longrightarrow> fst (iterator example_upstream (body resp) Consume_all) = chunks"
    using t[THEN conjunct2, THEN conjunct2, THEN conjunct1] enc by blast
  have w1: "\<exists>resp. stream_file_download example_upstream ?url
              = (Inr resp, [Session_created, Head_request ?url])
            \<and> media_type resp = ''text/html''
            \<and> fst (iterator example_upstream (body resp) Consume_all)
                = [''chunk one'', ''chunk two'']"
  proof -
    have "media_type resp = ''text/html''" using r(2) n by simp
    moreover have "fst (iterator example_upstream (body resp) Consume_all)
        = [''chunk one'', ''chunk two'']"
      using r(3) g by blast
    ultimately show ?thesis using r(1) by blast
  qed
  let ?curl = "''https://host/'' @ cyrillic_name"
  let ?ch = "\<lparr>head_status = 200, head_content_type_header = Some ''application/pdf''\<rparr>"
  have cv: "startswith ?curl ''http://'' \<or> startswith ?curl ''https://''" by code_simp
  have chd: "session_head example_upstream ?curl = Inr ?ch" by code_simp
  have cs: "head_status ?ch < 400" by simp
  have cenc: "\<not> (latin1_encodable (media_type_or_default (head_content_type_header ?ch))
             \<and> latin1_encodable (disposition_name ?curl))"
    by code_simp
  have w2: "stream_file_download example_upstream ?curl
       = (Inl (Exc (Error ''UnicodeEncodeError'')),
          [Session_created, Head_request ?curl, Session_closed])"
    using media_type_not_allowlisted[OF cv chd cs, THEN conjunct2, THEN conjunct2, THEN conjunct2]
      cenc by blast
  show ?thesis using u w1 w2 by blast
qed

text \<open>C10 as stated fails: the upstream declares a media type with a Cyrillic letter,
  and the proxy does not stream the body: building the response raises.\<close>

theorem media_type_latin1_counterexample:
  "session_head example_upstream ''https://host/typed.bin''
     = Inr \<lparr>head_status = 200, head_content_type_header = Some cyrillic_media_type\<rparr>
   \<and> stream_file_download example_upstream ''https://host/typed.bin''
     = (Inl (Exc (Error ''UnicodeEncodeError'')),
        [Session_created, Head_request ''https://host/typed.bin'', Session_closed])
   \<and> snd (download example_upstream ''https://host/typed.bin'' Consume_all)
     = [Session_created, Head_request ''https://host/typed.bin'', Session_closed]"
  by code_simp

end
